theory Spec2Isabelle
  imports Main "HOL-Library.Word"
begin

section \<open>Shared vocabulary\<close>

text \<open>
  Go's \<^verbatim>\<open>error\<close> values that the operator tells apart: the API server's
  NotFound (\<^verbatim>\<open>apierrors.IsNotFound\<close>) and everything else. Both carry the text
  that \<^verbatim>\<open>err.Error()\<close> returns. A \<^verbatim>\<open>nil\<close> error is \<open>None\<close>.
\<close>

datatype error = NotFound string | Failure string

fun IsNotFound :: "error \<Rightarrow> bool" where
  "IsNotFound (NotFound m) = True"
| "IsNotFound (Failure m) = False"

fun Error :: "error \<Rightarrow> string" where
  "Error (NotFound m) = m"
| "Error (Failure m) = m"

section \<open>pkg/cloudflare/client.go\<close>

text \<open>
  \<^verbatim>\<open>APIClient\<close> holds the two credentials and an HTTP client. None of the three
  methods issues a request (the bodies end in TODO comments), so each method is modelled
  as returning the list of HTTP requests it sent next to its Go result; the list makes
  "without contacting the external API" a statement about the value.
\<close>

record APIClient =
  AccountID :: string
  APIToken :: string

datatype http_request = HttpRequest string string

definition EnsureSession :: "APIClient \<Rightarrow> string \<Rightarrow> http_request list \<times> bool \<times> error option" where
  "EnsureSession c sessionID =
     (if sessionID = '''' then ([], False, Some (Failure ''sessionID is empty''))
      else if APIToken c = '''' \<or> AccountID c = '''' then ([], True, None)
      else ([], True, None))"

definition EnsureRoute :: "APIClient \<Rightarrow> string \<Rightarrow> string \<Rightarrow> http_request list \<times> error option" where
  "EnsureRoute c sessionID endpoint =
     (if sessionID = '''' then ([], Some (Failure ''sessionID is empty''))
      else if endpoint = '''' then ([], Some (Failure ''endpoint is empty''))
      else if APIToken c = '''' \<or> AccountID c = '''' then ([], None)
      else ([], None))"

definition DeleteRoute :: "APIClient \<Rightarrow> string \<Rightarrow> http_request list \<times> error option" where
  "DeleteRoute c sessionID =
     (if sessionID = '''' then ([], None)
      else if APIToken c = '''' \<or> AccountID c = '''' then ([], None)
      else ([], None))"

section \<open>Pods and \<^verbatim>\<open>podEndpoint\<close>\<close>

text \<open>
  The parts of \<^verbatim>\<open>corev1.Pod\<close> the controller reads or writes. A container port is
  Go's \<^verbatim>\<open>int32\<close>; labels and annotations are Go maps (a nil map and an empty map
  are both \<open>Map.empty\<close>).
\<close>

record ContainerPort =
  containerPort :: "32 word"

record Container =
  c_name :: string
  ports :: "ContainerPort list"

record PodCondition =
  pc_type :: string
  pc_status :: string

record PodStatus =
  pod_phase :: string
  pod_conditions :: "PodCondition list"
  podIP :: string

record Pod =
  pod_name :: string
  pod_namespace :: string
  pod_labels :: "string \<rightharpoonup> string"
  pod_annotations :: "string \<rightharpoonup> string"
  pod_controller :: "(string \<times> string) option"
  pod_containers :: "Container list"
  pod_status :: PodStatus

text \<open>\<^verbatim>\<open>%d\<close> of \<^verbatim>\<open>fmt.Sprintf\<close>: the decimal digits of a signed integer.\<close>

definition digit_char :: "nat \<Rightarrow> char" where
  "digit_char d = ''0123456789'' ! d"

function decimal :: "nat \<Rightarrow> string" where
  "decimal n = (if n < 10 then [digit_char n] else decimal (n div 10) @ [digit_char (n mod 10)])"
  by pat_completeness auto
termination
  by (relation "measure id") auto

declare decimal.simps [simp del]

definition format_d :: "int \<Rightarrow> string" where
  "format_d i = (if i < 0 then CHR ''-'' # decimal (nat (- i)) else decimal (nat i))"

text \<open>
  The \<^verbatim>\<open>for _, container := range pod.Spec.Containers\<close> loop of
  \<^verbatim>\<open>podEndpoint\<close>; the second argument is the variable \<^verbatim>\<open>port\<close>.
\<close>

fun port_loop :: "Container list \<Rightarrow> 32 word \<Rightarrow> 32 word" where
  "port_loop [] port = port"
| "port_loop (container # rest) port =
     (if 0 < length (ports container) then containerPort (ports container ! 0)
      else port_loop rest port)"

definition podEndpoint :: "Pod \<Rightarrow> string" where
  "podEndpoint pod =
     (if podIP (pod_status pod) = '''' then ''''
      else podIP (pod_status pod) @ '':'' @ format_d (sint (port_loop (pod_containers pod) 80)))"

definition PodRunning :: string where "PodRunning = ''Running''"
definition PodReady :: string where "PodReady = ''Ready''"
definition ConditionTrue :: string where "ConditionTrue = ''True''"
definition ConditionFalse :: string where "ConditionFalse = ''False''"
definition ConditionUnknown :: string where "ConditionUnknown = ''Unknown''"

text \<open>The loop of \<^verbatim>\<open>isPodReady\<close> over the pod's status conditions.\<close>

fun ready_loop :: "PodCondition list \<Rightarrow> bool" where
  "ready_loop [] = False"
| "ready_loop (cond # rest) =
     (if pc_type cond = PodReady \<and> pc_status cond = ConditionTrue then True
      else ready_loop rest)"

definition isPodReady :: "Pod \<Rightarrow> bool" where
  "isPodReady pod =
     (if pod_phase (pod_status pod) \<noteq> PodRunning then False
      else ready_loop (pod_conditions (pod_status pod)))"

section \<open>api/v1alpha1/sessionbinding\_types.go\<close>

text \<open>
  An instant is an integer; \<open>0\<close> is Go's zero \<^verbatim>\<open>time.Time\<close>. A
  \<^verbatim>\<open>*metav1.Time\<close> is an optional instant, \<open>None\<close> for \<^verbatim>\<open>nil\<close>.
\<close>

type_synonym gotime = int

fun IsZero :: "gotime option \<Rightarrow> bool" where
  "IsZero None = True"
| "IsZero (Some t) = (t = 0)"

definition SessionBindingPhasePending :: string where "SessionBindingPhasePending = ''Pending''"
definition SessionBindingPhaseBound :: string where "SessionBindingPhaseBound = ''Bound''"
definition SessionBindingPhaseExpired :: string where "SessionBindingPhaseExpired = ''Expired''"
definition SessionBindingPhaseError :: string where "SessionBindingPhaseError = ''Error''"

definition ConditionSessionDiscovered :: string where "ConditionSessionDiscovered = ''SessionDiscovered''"
definition ConditionPodReady :: string where "ConditionPodReady = ''PodReady''"
definition ConditionRouteConfigured :: string where "ConditionRouteConfigured = ''RouteConfigured''"

record Condition =
  cond_type :: string
  cond_status :: string
  cond_observedGeneration :: int
  cond_lastTransitionTime :: gotime
  cond_reason :: string
  cond_message :: string

record SessionBindingSpec =
  SessionID :: string
  UserID :: string
  TargetDeployment :: string
  TTLSeconds :: "int option"

record SessionBindingStatus =
  Phase :: string
  BoundPod :: string
  RouteEndpoint :: string
  ObservedGeneration :: int
  Conditions :: "Condition list"
  LastReconcileTime :: "gotime option"

record SessionBinding =
  Name :: string
  Namespace :: string
  Generation :: int
  DeletionTimestamp :: "gotime option"
  Finalizers :: "string list"
  Spec :: SessionBindingSpec
  Status :: SessionBindingStatus

section \<open>Library helpers the controller calls\<close>

text \<open>
  \<^verbatim>\<open>meta.FindStatusCondition\<close> and \<^verbatim>\<open>meta.SetStatusCondition\<close> of apimachinery:
  the first condition of the given type is updated in place, its transition time moving
  only when the status value changes; a condition of a new type is appended. The first
  argument is the library's own \<^verbatim>\<open>time.Now()\<close>, which is not the injected clock.
\<close>

fun FindStatusCondition :: "Condition list \<Rightarrow> string \<Rightarrow> Condition option" where
  "FindStatusCondition [] conditionType = None"
| "FindStatusCondition (c # rest) conditionType =
     (if cond_type c = conditionType then Some c else FindStatusCondition rest conditionType)"

fun SetStatusCondition :: "gotime \<Rightarrow> Condition list \<Rightarrow> Condition \<Rightarrow> Condition list" where
  "SetStatusCondition now [] newCondition =
     [if cond_lastTransitionTime newCondition = 0
      then newCondition\<lparr>cond_lastTransitionTime := now\<rparr> else newCondition]"
| "SetStatusCondition now (existing # rest) newCondition =
     (if cond_type existing = cond_type newCondition then
        (if cond_status existing \<noteq> cond_status newCondition
         then existing\<lparr>cond_status := cond_status newCondition,
                cond_lastTransitionTime :=
                  (if cond_lastTransitionTime newCondition \<noteq> 0
                   then cond_lastTransitionTime newCondition else now)\<rparr>
         else existing)
        \<lparr>cond_reason := cond_reason newCondition,
         cond_message := cond_message newCondition,
         cond_observedGeneration := cond_observedGeneration newCondition\<rparr> # rest
      else existing # SetStatusCondition now rest newCondition)"

text \<open>\<^verbatim>\<open>controllerutil\<close>'s finalizer helpers and \<^verbatim>\<open>client.IgnoreNotFound\<close>.\<close>

definition sessionBindingFinalizer :: string where
  "sessionBindingFinalizer = ''sessionbinding.cloudflare.example.com/finalizer''"

definition podSessionLabelKey :: string where
  "podSessionLabelKey = ''cloudflare.example.com/session-id''"

definition ContainsFinalizer :: "SessionBinding \<Rightarrow> string \<Rightarrow> bool" where
  "ContainsFinalizer obj f = (f \<in> set (Finalizers obj))"

definition AddFinalizer :: "SessionBinding \<Rightarrow> string \<Rightarrow> SessionBinding" where
  "AddFinalizer obj f =
     (if f \<in> set (Finalizers obj) then obj else obj\<lparr>Finalizers := Finalizers obj @ [f]\<rparr>)"

definition RemoveFinalizer :: "SessionBinding \<Rightarrow> string \<Rightarrow> SessionBinding" where
  "RemoveFinalizer obj f = obj\<lparr>Finalizers := filter (\<lambda>x. x \<noteq> f) (Finalizers obj)\<rparr>"

definition IgnoreNotFound :: "error \<Rightarrow> error option" where
  "IgnoreNotFound err = (if IsNotFound err then None else Some err)"

section \<open>The collaborators: cluster API, edge client, clocks, event recorder\<close>

text \<open>
  The cluster is the API server's store of bindings, pods and deployments, keyed by
  (namespace, name), together with the log of everything the reconciler did to its
  collaborators: API calls, edge calls and recorded events, in order.
\<close>

type_synonym key = "string \<times> string"

record Deployment =
  template_labels :: "string \<rightharpoonup> string"
  template_annotations :: "string \<rightharpoonup> string"
  template_containers :: "Container list"

datatype api_call =
    GetBinding key | UpdateBinding key | UpdateBindingStatus key
  | GetPod key | CreatePod key | DeletePod key | GetDeployment key

datatype edge_call =
    CallEnsureSession string | CallEnsureRoute string string | CallDeleteRoute string

datatype effect = Api api_call | Edge edge_call | RecordEvent string string string

record cluster =
  bindings :: "key \<rightharpoonup> SessionBinding"
  pods :: "key \<rightharpoonup> Pod"
  deployments :: "key \<rightharpoonup> Deployment"
  trace :: "effect list"

text \<open>
  \<^verbatim>\<open>cloudflare.Client\<close> is an interface: any three functions. The environment of a
  reconcile fixes the edge client, which API calls fail in transport (\<open>fault\<close>, with the
  error text), whether the scheme can encode the owner link, the injected
  \<^verbatim>\<open>Clock\<close> and the wall clock read by \<^verbatim>\<open>meta.SetStatusCondition\<close>.
\<close>

record CFClient =
  cf_EnsureSession :: "string \<Rightarrow> bool \<times> error option"
  cf_EnsureRoute :: "string \<Rightarrow> string \<Rightarrow> error option"
  cf_DeleteRoute :: "string \<Rightarrow> error option"

record env =
  CF :: CFClient
  fault :: "api_call \<Rightarrow> string option"
  scheme_error :: "string option"
  clock_now :: gotime
  wall_now :: gotime

definition record_effect :: "effect \<Rightarrow> cluster \<Rightarrow> cluster" where
  "record_effect e w = w\<lparr>trace := trace w @ [e]\<rparr>"

text \<open>
  The client's verbs. A Get by name returns the stored object under that name; Update
  writes metadata and spec and leaves status to the status subresource; Status().Update
  writes status only. Create refuses an existing name, Delete reports a missing one as
  NotFound. One reconcile runs alone on the store (the queue serialises a binding's
  reconciles), so a write fails only where \<open>fault\<close> says so; resource versions, the
  logger and context cancellation are left out.
\<close>

definition Get_binding :: "env \<Rightarrow> key \<Rightarrow> cluster \<Rightarrow> cluster \<times> (error + SessionBinding)" where
  "Get_binding e k w =
     (let w' = record_effect (Api (GetBinding k)) w in
      case fault e (GetBinding k) of
        Some m \<Rightarrow> (w', Inl (Failure m))
      | None \<Rightarrow>
          (case bindings w k of
             None \<Rightarrow> (w', Inl (NotFound ''sessionbinding not found''))
           | Some b \<Rightarrow> (w', Inr (b\<lparr>Namespace := fst k, Name := snd k\<rparr>))))"

definition Update_binding :: "env \<Rightarrow> SessionBinding \<Rightarrow> cluster \<Rightarrow> cluster \<times> (error + SessionBinding)" where
  "Update_binding e b w =
     (let k = (Namespace b, Name b); w' = record_effect (Api (UpdateBinding k)) w in
      case fault e (UpdateBinding k) of
        Some m \<Rightarrow> (w', Inl (Failure m))
      | None \<Rightarrow>
          (case bindings w k of
             None \<Rightarrow> (w', Inl (NotFound ''sessionbinding not found''))
           | Some stored \<Rightarrow>
               (let b' = b\<lparr>Status := Status stored\<rparr>
                in (w'\<lparr>bindings := (bindings w')(k \<mapsto> b')\<rparr>, Inr b'))))"

definition Status_Update :: "env \<Rightarrow> SessionBinding \<Rightarrow> cluster \<Rightarrow> cluster \<times> error option" where
  "Status_Update e b w =
     (let k = (Namespace b, Name b); w' = record_effect (Api (UpdateBindingStatus k)) w in
      case fault e (UpdateBindingStatus k) of
        Some m \<Rightarrow> (w', Some (Failure m))
      | None \<Rightarrow>
          (case bindings w k of
             None \<Rightarrow> (w', Some (NotFound ''sessionbinding not found''))
           | Some stored \<Rightarrow>
               (w'\<lparr>bindings := (bindings w')(k \<mapsto> stored\<lparr>Status := Status b\<rparr>)\<rparr>, None)))"

definition Get_pod :: "env \<Rightarrow> key \<Rightarrow> cluster \<Rightarrow> cluster \<times> (error + Pod)" where
  "Get_pod e k w =
     (let w' = record_effect (Api (GetPod k)) w in
      case fault e (GetPod k) of
        Some m \<Rightarrow> (w', Inl (Failure m))
      | None \<Rightarrow>
          (case pods w k of
             None \<Rightarrow> (w', Inl (NotFound ''pod not found''))
           | Some p \<Rightarrow> (w', Inr (p\<lparr>pod_namespace := fst k, pod_name := snd k\<rparr>))))"

definition Get_deployment :: "env \<Rightarrow> key \<Rightarrow> cluster \<Rightarrow> cluster \<times> (error + Deployment)" where
  "Get_deployment e k w =
     (let w' = record_effect (Api (GetDeployment k)) w in
      case fault e (GetDeployment k) of
        Some m \<Rightarrow> (w', Inl (Failure m))
      | None \<Rightarrow>
          (case deployments w k of
             None \<Rightarrow> (w', Inl (NotFound ''deployment not found''))
           | Some d \<Rightarrow> (w', Inr d)))"

definition Create_pod :: "env \<Rightarrow> Pod \<Rightarrow> cluster \<Rightarrow> cluster \<times> error option" where
  "Create_pod e p w =
     (let k = (pod_namespace p, pod_name p); w' = record_effect (Api (CreatePod k)) w in
      case fault e (CreatePod k) of
        Some m \<Rightarrow> (w', Some (Failure m))
      | None \<Rightarrow>
          (case pods w k of
             Some existing \<Rightarrow> (w', Some (Failure ''pod already exists''))
           | None \<Rightarrow> (w'\<lparr>pods := (pods w')(k \<mapsto> p)\<rparr>, None)))"

definition Delete_pod :: "env \<Rightarrow> Pod \<Rightarrow> cluster \<Rightarrow> cluster \<times> error option" where
  "Delete_pod e p w =
     (let k = (pod_namespace p, pod_name p); w' = record_effect (Api (DeletePod k)) w in
      case fault e (DeletePod k) of
        Some m \<Rightarrow> (w', Some (Failure m))
      | None \<Rightarrow>
          (case pods w k of
             None \<Rightarrow> (w', Some (NotFound ''pod not found''))
           | Some existing \<Rightarrow> (w'\<lparr>pods := (pods w')(k := None)\<rparr>, None)))"

definition SetControllerReference :: "env \<Rightarrow> SessionBinding \<Rightarrow> Pod \<Rightarrow> error + Pod" where
  "SetControllerReference e owner p =
     (case scheme_error e of
        Some m \<Rightarrow> Inl (Failure m)
      | None \<Rightarrow> Inr (p\<lparr>pod_controller := Some (Namespace owner, Name owner)\<rparr>))"

section \<open>controllers/sessionbinding\_controller.go\<close>

text \<open>\<^verbatim>\<open>ctrl.Result\<close>; a duration is Go's count of nanoseconds.\<close>

record Result =
  Requeue :: bool
  RequeueAfter :: int

definition Second :: int where "Second = 1000000000"
definition Minute :: int where "Minute = 60 * Second"

definition Result_empty :: Result where
  "Result_empty = \<lparr>Requeue = False, RequeueAfter = 0\<rparr>"

definition setCondition :: "env \<Rightarrow> Condition list \<Rightarrow> string \<Rightarrow> string \<Rightarrow> string \<Rightarrow> string \<Rightarrow> Condition list" where
  "setCondition e conditions condType status reason message =
     SetStatusCondition (wall_now e) conditions
       \<lparr>cond_type = condType, cond_status = status, cond_observedGeneration = 0,
        cond_lastTransitionTime = 0, cond_reason = reason, cond_message = message\<rparr>"

text \<open>
  The two assignments the controller repeats on \<^verbatim>\<open>binding.Status\<close>:
  \<^verbatim>\<open>r.setCondition(&binding.Status.Conditions, ...)\<close> and
  \<^verbatim>\<open>binding.Status.Phase = ...\<close>.
\<close>

definition with_condition :: "env \<Rightarrow> string \<Rightarrow> string \<Rightarrow> string \<Rightarrow> string \<Rightarrow> SessionBinding \<Rightarrow> SessionBinding" where
  "with_condition e condType status reason message binding =
     binding\<lparr>Status := (Status binding)
       \<lparr>Conditions := setCondition e (Conditions (Status binding)) condType status reason message\<rparr>\<rparr>"

definition with_phase :: "string \<Rightarrow> SessionBinding \<Rightarrow> SessionBinding" where
  "with_phase p binding = binding\<lparr>Status := (Status binding)\<lparr>Phase := p\<rparr>\<rparr>"

definition with_route :: "string \<Rightarrow> string \<Rightarrow> SessionBinding \<Rightarrow> SessionBinding" where
  "with_route podName endpoint binding =
     binding\<lparr>Status := (Status binding)\<lparr>BoundPod := podName, RouteEndpoint := endpoint\<rparr>\<rparr>"

definition ensureSessionPod :: "env \<Rightarrow> SessionBinding \<Rightarrow> cluster \<Rightarrow> cluster \<times> (error + Pod)" where
  "ensureSessionPod e binding w =
     (let podName = ''session-'' @ SessionID (Spec binding) in
      case Get_pod e (Namespace binding, podName) w of
        (w1, Inr pod) \<Rightarrow> (w1, Inr pod)
      | (w1, Inl err) \<Rightarrow>
          if \<not> IsNotFound err then (w1, Inl err)
          else
            (case Get_deployment e (Namespace binding, TargetDeployment (Spec binding)) w1 of
               (w2, Inl err) \<Rightarrow> (w2, Inl err)
             | (w2, Inr deployment) \<Rightarrow>
                 (let labels = (template_labels deployment)
                        (podSessionLabelKey \<mapsto> SessionID (Spec binding),
                         ''app.kubernetes.io/managed-by'' \<mapsto> ''cloudflare-session-operator'');
                      pod = \<lparr>pod_name = podName,
                             pod_namespace = Namespace binding,
                             pod_labels = labels,
                             pod_annotations = template_annotations deployment,
                             pod_controller = None,
                             pod_containers = template_containers deployment,
                             pod_status = \<lparr>pod_phase = '''', pod_conditions = [], podIP = ''''\<rparr>\<rparr>;
                      pod = pod\<lparr>pod_annotations :=
                              (pod_annotations pod)(podSessionLabelKey \<mapsto> SessionID (Spec binding))\<rparr>
                  in case SetControllerReference e binding pod of
                       Inl err \<Rightarrow> (w2, Inl err)
                     | Inr pod \<Rightarrow>
                         (case Create_pod e pod w2 of
                            (w3, Some err) \<Rightarrow> (w3, Inl err)
                          | (w3, None) \<Rightarrow>
                              (record_effect
                                 (RecordEvent ''Normal'' ''PodCreated''
                                    (''Created pod '' @ pod_name pod @ '' for session ''
                                       @ SessionID (Spec binding))) w3,
                               Inr pod)))))"

definition reconcileActive :: "env \<Rightarrow> SessionBinding \<Rightarrow> cluster \<Rightarrow> cluster \<times> SessionBinding \<times> Result \<times> error option" where
  "reconcileActive e binding w =
     (if SessionID (Spec binding) = '''' then
        (w,
         with_phase SessionBindingPhaseError
           (with_condition e ConditionSessionDiscovered ConditionFalse ''InvalidSpec''
              ''spec.sessionID must be provided'' binding),
         Result_empty, None)
      else
        (let w1 = record_effect (Edge (CallEnsureSession (SessionID (Spec binding)))) w in
         case cf_EnsureSession (CF e) (SessionID (Spec binding)) of
           (sessionExists, Some sessionErr) \<Rightarrow>
             (w1,
              with_phase SessionBindingPhaseError
                (with_condition e ConditionSessionDiscovered ConditionUnknown ''CloudflareError''
                   (Error sessionErr) binding),
              \<lparr>Requeue = False, RequeueAfter = Minute\<rparr>, None)
         | (sessionExists, None) \<Rightarrow>
             if \<not> sessionExists then
               (w1,
                with_phase SessionBindingPhaseExpired
                  (with_condition e ConditionSessionDiscovered ConditionFalse ''NotFound''
                     ''Cloudflare session not found'' binding),
                Result_empty, None)
             else
               (let binding = with_condition e ConditionSessionDiscovered ConditionTrue
                                ''SessionActive'' ''Cloudflare session is active'' binding in
                case ensureSessionPod e binding w1 of
                  (w2, Inl err) \<Rightarrow>
                    (w2, with_phase SessionBindingPhaseError binding, Result_empty, Some err)
                | (w2, Inr pod) \<Rightarrow>
                    if \<not> isPodReady pod then
                      (w2,
                       with_route (pod_name pod) ''''
                         (with_phase SessionBindingPhasePending
                            (with_condition e ConditionPodReady ConditionFalse
                               ''WaitingForReadiness'' ''Session pod not ready yet'' binding)),
                       \<lparr>Requeue = False, RequeueAfter = 10 * Second\<rparr>, None)
                    else
                      (let binding = with_condition e ConditionPodReady ConditionTrue
                                       ''PodReady'' ''Session pod ready'' binding;
                           endpoint = podEndpoint pod in
                       if endpoint = '''' then
                         (w2,
                          with_phase SessionBindingPhaseError
                            (with_condition e ConditionRouteConfigured ConditionFalse
                               ''PodEndpointMissing'' ''Pod ready but lacks PodIP/port'' binding),
                          \<lparr>Requeue = False, RequeueAfter = 5 * Second\<rparr>, None)
                       else
                         (let w3 = record_effect
                                     (Edge (CallEnsureRoute (SessionID (Spec binding)) endpoint)) w2 in
                          case cf_EnsureRoute (CF e) (SessionID (Spec binding)) endpoint of
                            Some err \<Rightarrow>
                              (w3,
                               with_phase SessionBindingPhaseError
                                 (with_condition e ConditionRouteConfigured ConditionFalse
                                    ''CloudflareError'' (Error err) binding),
                               \<lparr>Requeue = False, RequeueAfter = Minute\<rparr>, None)
                          | None \<Rightarrow>
                              (w3,
                               with_condition e ConditionRouteConfigured ConditionTrue
                                 ''RouteConfigured'' ''Cloudflare route configured''
                                 (with_route (pod_name pod) endpoint
                                    (with_phase SessionBindingPhaseBound binding)),
                               Result_empty, None))))))"

definition cleanupResources :: "env \<Rightarrow> SessionBinding \<Rightarrow> cluster \<Rightarrow> cluster \<times> error option" where
  "cleanupResources e binding w =
     (case
        (if BoundPod (Status binding) \<noteq> '''' then
           (case Get_pod e (Namespace binding, BoundPod (Status binding)) w of
              (w1, Inr pod) \<Rightarrow>
                (case Delete_pod e pod w1 of
                   (w2, Some err) \<Rightarrow> if \<not> IsNotFound err then (w2, Some err) else (w2, None)
                 | (w2, None) \<Rightarrow> (w2, None))
            | (w1, Inl err) \<Rightarrow> (w1, None))
         else (w, None))
      of
        (w2, Some err) \<Rightarrow> (w2, Some err)
      | (w2, None) \<Rightarrow>
          (case
             (if SessionID (Spec binding) \<noteq> '''' then
                (record_effect (Edge (CallDeleteRoute (SessionID (Spec binding)))) w2,
                 cf_DeleteRoute (CF e) (SessionID (Spec binding)))
              else (w2, None))
           of
             (w3, Some err) \<Rightarrow> (w3, Some err)
           | (w3, None) \<Rightarrow>
               (record_effect
                  (RecordEvent ''Normal'' ''CleanedUp'' ''Removed Cloudflare route and session pod'') w3,
                None)))"

definition handleDeletion :: "env \<Rightarrow> SessionBinding \<Rightarrow> cluster \<Rightarrow> cluster \<times> Result \<times> error option" where
  "handleDeletion e binding w =
     (if \<not> ContainsFinalizer binding sessionBindingFinalizer then (w, Result_empty, None)
      else
        (case cleanupResources e binding w of
           (w1, Some err) \<Rightarrow> (w1, Result_empty, Some err)
         | (w1, None) \<Rightarrow>
             (case Update_binding e (RemoveFinalizer binding sessionBindingFinalizer) w1 of
                (w2, Inl err) \<Rightarrow> (w2, Result_empty, Some err)
              | (w2, Inr binding') \<Rightarrow> (w2, Result_empty, None))))"

definition patchStatus :: "env \<Rightarrow> SessionBinding \<Rightarrow> cluster \<Rightarrow> cluster \<times> error option" where
  "patchStatus e binding w =
     (case Get_binding e (Namespace binding, Name binding) w of
        (w1, Inl err) \<Rightarrow> (w1, Some err)
      | (w1, Inr current) \<Rightarrow>
          if Status current = Status binding then (w1, None)
          else Status_Update e (current\<lparr>Status := Status binding\<rparr>) w1)"

definition Reconcile :: "env \<Rightarrow> key \<Rightarrow> cluster \<Rightarrow> cluster \<times> Result \<times> error option" where
  "Reconcile e req w =
     (case Get_binding e req w of
        (w1, Inl err) \<Rightarrow> (w1, Result_empty, IgnoreNotFound err)
      | (w1, Inr binding) \<Rightarrow>
          if \<not> IsZero (DeletionTimestamp binding) then handleDeletion e binding w1
          else
            (case
               (if \<not> ContainsFinalizer binding sessionBindingFinalizer
                then Update_binding e (AddFinalizer binding sessionBindingFinalizer) w1
                else (w1, Inr binding))
             of
               (w2, Inl err) \<Rightarrow> (w2, Result_empty, Some err)
             | (w2, Inr binding) \<Rightarrow>
                 (let binding = binding\<lparr>Status := (Status binding)
                        \<lparr>ObservedGeneration := Generation binding,
                         LastReconcileTime := Some (clock_now e)\<rparr>\<rparr>
                  in case reconcileActive e binding w2 of
                       (w3, binding, result, reconcileErr) \<Rightarrow>
                         (case patchStatus e binding w3 of
                            (w4, statusErr) \<Rightarrow>
                              (case reconcileErr of
                                 Some err \<Rightarrow> (w4, result, Some err)
                               | None \<Rightarrow> (w4, result, statusErr))))))"

section \<open>Auxiliary definitions for the properties\<close>

text \<open>
  In production the reconciler's \<^verbatim>\<open>CFClient\<close> is the \<^verbatim>\<open>*APIClient\<close> built by
  \<^verbatim>\<open>NewClientFromEnv\<close>: the interface view of an \<^verbatim>\<open>APIClient\<close>.
\<close>

definition APIClient_as_CFClient :: "APIClient \<Rightarrow> CFClient" where
  "APIClient_as_CFClient c =
     \<lparr>cf_EnsureSession = (\<lambda>sessionID. snd (EnsureSession c sessionID)),
      cf_EnsureRoute = (\<lambda>sessionID endpoint. snd (EnsureRoute c sessionID endpoint)),
      cf_DeleteRoute = (\<lambda>sessionID. snd (DeleteRoute c sessionID))\<rparr>"

text \<open>
  The endpoint rule in the words of the specification: the port is taken from the first
  container only, and is 80 when that container declares no port.
\<close>

definition podEndpoint_spec :: "Pod \<Rightarrow> string" where
  "podEndpoint_spec pod =
     (if podIP (pod_status pod) = '''' then ''''
      else podIP (pod_status pod) @ '':'' @
           format_d (case pod_containers pod of
                       [] \<Rightarrow> 80
                     | first # others \<Rightarrow>
                         (case ports first of [] \<Rightarrow> 80 | p # ps \<Rightarrow> sint (containerPort p))))"

text \<open>
  A condition list holds a condition of a type when the first entry of that type carries
  the given status, reason and message (and the generation 0 that \<^verbatim>\<open>setCondition\<close>
  writes).
\<close>

definition holds_condition :: "Condition list \<Rightarrow> string \<Rightarrow> string \<Rightarrow> string \<Rightarrow> string \<Rightarrow> bool" where
  "holds_condition cs t s r m =
     (case FindStatusCondition cs t of
        None \<Rightarrow> False
      | Some c \<Rightarrow> cond_status c = s \<and> cond_reason c = r \<and> cond_message c = m \<and>
                  cond_observedGeneration c = 0)"

text \<open>The key under which a binding's session pod is looked up and created.\<close>

definition pod_key :: "SessionBinding \<Rightarrow> key" where
  "pod_key binding = (Namespace binding, ''session-'' @ SessionID (Spec binding))"

text \<open>
  Reconciling again and again on a state nobody else touches; each run reads its own wall
  clock, the injected clock stays as it is.
\<close>

primrec Reconcile_repeat :: "env \<Rightarrow> key \<Rightarrow> gotime list \<Rightarrow> cluster \<Rightarrow> cluster" where
  "Reconcile_repeat e req [] w = w"
| "Reconcile_repeat e req (t # ts) w =
     Reconcile_repeat e req ts (fst (Reconcile (e\<lparr>wall_now := t\<rparr>) req w))"

subsection \<open>Concrete scenarios\<close>

definition sidecar_first_pod :: Pod where
  "sidecar_first_pod =
     \<lparr>pod_name = ''session-s1'', pod_namespace = ''ns'',
      pod_labels = Map.empty, pod_annotations = Map.empty, pod_controller = None,
      pod_containers =
        [\<lparr>c_name = ''sidecar'', ports = []\<rparr>,
         \<lparr>c_name = ''web'', ports = [\<lparr>containerPort = 9090\<rparr>]\<rparr>],
      pod_status = \<lparr>pod_phase = ''Running'', pod_conditions = [], podIP = ''10.0.0.7''\<rparr>\<rparr>"

definition quiet_env :: env where
  "quiet_env =
     \<lparr>CF = APIClient_as_CFClient \<lparr>AccountID = '''', APIToken = ''''\<rparr>,
      fault = (\<lambda>call. None), scheme_error = None,
      clock_now = 1700000000, wall_now = 1700000001\<rparr>"

definition empty_status :: SessionBindingStatus where
  "empty_status =
     \<lparr>Phase = '''', BoundPod = '''', RouteEndpoint = '''', ObservedGeneration = 0,
      Conditions = [], LastReconcileTime = None\<rparr>"

definition fresh_binding :: SessionBinding where
  "fresh_binding =
     \<lparr>Name = ''b1'', Namespace = ''ns'', Generation = 1, DeletionTimestamp = None,
      Finalizers = [],
      Spec = \<lparr>SessionID = ''s1'', UserID = '''', TargetDeployment = ''web'', TTLSeconds = None\<rparr>,
      Status = empty_status\<rparr>"

definition web_deployment :: Deployment where
  "web_deployment =
     \<lparr>template_labels = [''app'' \<mapsto> ''web''], template_annotations = Map.empty,
      template_containers = [\<lparr>c_name = ''web'', ports = [\<lparr>containerPort = 8080\<rparr>]\<rparr>]\<rparr>"

definition fresh_cluster :: cluster where
  "fresh_cluster =
     \<lparr>bindings = [(''ns'', ''b1'') \<mapsto> fresh_binding], pods = Map.empty,
      deployments = [(''ns'', ''web'') \<mapsto> web_deployment], trace = []\<rparr>"

definition blank_binding :: SessionBinding where
  "blank_binding =
     \<lparr>Name = ''b0'', Namespace = ''ns'', Generation = 1, DeletionTimestamp = None,
      Finalizers = [sessionBindingFinalizer],
      Spec = \<lparr>SessionID = '''', UserID = '''', TargetDeployment = ''web'', TTLSeconds = None\<rparr>,
      Status = empty_status\<rparr>"

definition blank_cluster :: cluster where
  "blank_cluster =
     \<lparr>bindings = [(''ns'', ''b0'') \<mapsto> blank_binding], pods = Map.empty,
      deployments = [(''ns'', ''web'') \<mapsto> web_deployment], trace = []\<rparr>"

definition session_pod :: Pod where
  "session_pod =
     \<lparr>pod_name = ''session-s1'', pod_namespace = ''ns'',
      pod_labels = [''app'' \<mapsto> ''web''], pod_annotations = Map.empty,
      pod_controller = Some (''ns'', ''b1''),
      pod_containers = [\<lparr>c_name = ''web'', ports = [\<lparr>containerPort = 8080\<rparr>]\<rparr>],
      pod_status = \<lparr>pod_phase = ''Running'',
                    pod_conditions = [\<lparr>pc_type = ''Ready'', pc_status = ''True''\<rparr>],
                    podIP = ''10.0.0.7''\<rparr>\<rparr>"

definition ready_cluster :: cluster where
  "ready_cluster =
     \<lparr>bindings = [(''ns'', ''b1'') \<mapsto> fresh_binding],
      pods = [(''ns'', ''session-s1'') \<mapsto> session_pod],
      deployments = [(''ns'', ''web'') \<mapsto> web_deployment], trace = []\<rparr>"

definition bound_status :: SessionBindingStatus where
  "bound_status =
     \<lparr>Phase = ''Bound'', BoundPod = ''session-s1'', RouteEndpoint = ''10.0.0.7:8080'',
      ObservedGeneration = 1, Conditions = [], LastReconcileTime = Some 1700000000\<rparr>"

definition deleting_binding :: SessionBinding where
  "deleting_binding =
     \<lparr>Name = ''b1'', Namespace = ''ns'', Generation = 1, DeletionTimestamp = Some 1700000100,
      Finalizers = [sessionBindingFinalizer],
      Spec = \<lparr>SessionID = ''s1'', UserID = '''', TargetDeployment = ''web'', TTLSeconds = None\<rparr>,
      Status = bound_status\<rparr>"

definition teardown_cluster :: cluster where
  "teardown_cluster =
     \<lparr>bindings = [(''ns'', ''b1'') \<mapsto> deleting_binding],
      pods = [(''ns'', ''session-s1'') \<mapsto> session_pod],
      deployments = [(''ns'', ''web'') \<mapsto> web_deployment], trace = []\<rparr>"

definition lookup_fault_env :: env where
  "lookup_fault_env =
     quiet_env\<lparr>fault := (\<lambda>call. if call = GetPod (''ns'', ''session-s1'')
                                  then Some ''connection refused'' else None)\<rparr>"

definition orphan_binding :: SessionBinding where
  "orphan_binding =
     \<lparr>Name = ''b1'', Namespace = ''ns'', Generation = 1, DeletionTimestamp = Some 1700000100,
      Finalizers = [''example.com/other-finalizer''],
      Spec = \<lparr>SessionID = ''s1'', UserID = '''', TargetDeployment = ''web'', TTLSeconds = None\<rparr>,
      Status = bound_status\<rparr>"

definition orphan_cluster :: cluster where
  "orphan_cluster =
     \<lparr>bindings = [(''ns'', ''b1'') \<mapsto> orphan_binding],
      pods = [(''ns'', ''session-s1'') \<mapsto> session_pod],
      deployments = [(''ns'', ''web'') \<mapsto> web_deployment], trace = []\<rparr>"

section \<open>Supporting lemmas\<close>

subsection \<open>Conditions and status assignments\<close>

lemma record_effect_stores [simp]:
  "bindings (record_effect x w) = bindings w"
  "pods (record_effect x w) = pods w"
  "deployments (record_effect x w) = deployments w"
  "trace (record_effect x w) = trace w @ [x]"
  by (simp_all add: record_effect_def)

lemma Find_Set_same:
  "\<exists>c. FindStatusCondition (SetStatusCondition now cs n) (cond_type n) = Some c \<and>
       cond_status c = cond_status n \<and> cond_reason c = cond_reason n \<and>
       cond_message c = cond_message n \<and> cond_observedGeneration c = cond_observedGeneration n"
  by (induction cs) auto

lemma Find_Set_other:
  "t \<noteq> cond_type n \<Longrightarrow>
   FindStatusCondition (SetStatusCondition now cs n) t = FindStatusCondition cs t"
  by (induction cs) auto

lemma Set_absorbed:
  "FindStatusCondition cs (cond_type n) = Some c \<Longrightarrow> cond_status c = cond_status n \<Longrightarrow>
   cond_reason c = cond_reason n \<Longrightarrow> cond_message c = cond_message n \<Longrightarrow>
   cond_observedGeneration c = cond_observedGeneration n \<Longrightarrow>
   SetStatusCondition now cs n = cs"
  by (induction cs) (auto split: if_splits)

lemma setCondition_holds: "holds_condition (setCondition e cs t s r m) t s r m"
  using Find_Set_same [of "wall_now e" cs
      "\<lparr>cond_type = t, cond_status = s, cond_observedGeneration = 0,
        cond_lastTransitionTime = 0, cond_reason = r, cond_message = m\<rparr>"]
  by (auto simp: holds_condition_def setCondition_def)

lemma setCondition_keeps:
  "t' \<noteq> t \<Longrightarrow> holds_condition (setCondition e cs t s r m) t' s' r' m' = holds_condition cs t' s' r' m'"
  by (simp add: holds_condition_def setCondition_def Find_Set_other)

lemma setCondition_absorbed:
  "holds_condition cs t s r m \<Longrightarrow> setCondition e cs t s r m = cs"
  by (auto simp: holds_condition_def setCondition_def split: option.splits
      intro!: Set_absorbed)

lemma Find_holds:
  "holds_condition cs t s r m \<Longrightarrow>
   \<exists>c. FindStatusCondition cs t = Some c \<and> cond_status c = s \<and> cond_reason c = r \<and> cond_message c = m"
  by (auto simp: holds_condition_def split: option.splits)

lemma with_condition_absorbed:
  "holds_condition (Conditions (Status b)) t s r m \<Longrightarrow> with_condition e t s r m b = b"
  by (simp add: with_condition_def setCondition_absorbed)

lemma with_phase_absorbed: "Phase (Status b) = p \<Longrightarrow> with_phase p b = b"
  by (auto simp: with_phase_def)

lemma with_route_absorbed:
  "BoundPod (Status b) = n \<Longrightarrow> RouteEndpoint (Status b) = ep \<Longrightarrow> with_route n ep b = b"
  by (auto simp: with_route_def)

lemma with_simps [simp]:
  "Spec (with_condition e t s r m b) = Spec b"
  "Namespace (with_condition e t s r m b) = Namespace b"
  "Spec (with_phase p b) = Spec b"
  "Namespace (with_phase p b) = Namespace b"
  "Spec (with_route n ep b) = Spec b"
  "Namespace (with_route n ep b) = Namespace b"
  "Phase (Status (with_phase p b)) = p"
  "Phase (Status (with_condition e t s r m b)) = Phase (Status b)"
  "Phase (Status (with_route n ep b)) = Phase (Status b)"
  "BoundPod (Status (with_phase p b)) = BoundPod (Status b)"
  "BoundPod (Status (with_condition e t s r m b)) = BoundPod (Status b)"
  "BoundPod (Status (with_route n ep b)) = n"
  "RouteEndpoint (Status (with_phase p b)) = RouteEndpoint (Status b)"
  "RouteEndpoint (Status (with_condition e t s r m b)) = RouteEndpoint (Status b)"
  "RouteEndpoint (Status (with_route n ep b)) = ep"
  "Conditions (Status (with_phase p b)) = Conditions (Status b)"
  "Conditions (Status (with_route n ep b)) = Conditions (Status b)"
  "Conditions (Status (with_condition e t s r m b)) = setCondition e (Conditions (Status b)) t s r m"
  by (simp_all add: with_condition_def with_phase_def with_route_def)

lemma with_frame:
  "with_condition e t s r m b = b\<lparr>Status := Status (with_condition e t s r m b)\<rparr>"
  "with_phase p b = b\<lparr>Status := Status (with_phase p b)\<rparr>"
  "with_route n ep b = b\<lparr>Status := Status (with_route n ep b)\<rparr>"
  "ObservedGeneration (Status (with_condition e t s r m b)) = ObservedGeneration (Status b)"
  "ObservedGeneration (Status (with_phase p b)) = ObservedGeneration (Status b)"
  "ObservedGeneration (Status (with_route n ep b)) = ObservedGeneration (Status b)"
  "LastReconcileTime (Status (with_condition e t s r m b)) = LastReconcileTime (Status b)"
  "LastReconcileTime (Status (with_phase p b)) = LastReconcileTime (Status b)"
  "LastReconcileTime (Status (with_route n ep b)) = LastReconcileTime (Status b)"
  by (simp_all add: with_condition_def with_phase_def with_route_def)

lemma pod_key_with [simp]:
  "pod_key (with_condition e t s r m b) = pod_key b"
  by (simp add: pod_key_def)

lemma condition_types_distinct [simp]:
  "ConditionSessionDiscovered \<noteq> ConditionPodReady"
  "ConditionSessionDiscovered \<noteq> ConditionRouteConfigured"
  "ConditionPodReady \<noteq> ConditionRouteConfigured"
  "ConditionPodReady \<noteq> ConditionSessionDiscovered"
  "ConditionRouteConfigured \<noteq> ConditionSessionDiscovered"
  "ConditionRouteConfigured \<noteq> ConditionPodReady"
  by (simp_all add: ConditionSessionDiscovered_def ConditionPodReady_def ConditionRouteConfigured_def)

lemma phases_distinct [simp]:
  "SessionBindingPhasePending \<noteq> SessionBindingPhaseBound"
  "SessionBindingPhasePending \<noteq> SessionBindingPhaseExpired"
  "SessionBindingPhasePending \<noteq> SessionBindingPhaseError"
  "SessionBindingPhaseBound \<noteq> SessionBindingPhasePending"
  "SessionBindingPhaseBound \<noteq> SessionBindingPhaseExpired"
  "SessionBindingPhaseBound \<noteq> SessionBindingPhaseError"
  "SessionBindingPhaseExpired \<noteq> SessionBindingPhasePending"
  "SessionBindingPhaseExpired \<noteq> SessionBindingPhaseBound"
  "SessionBindingPhaseExpired \<noteq> SessionBindingPhaseError"
  "SessionBindingPhaseError \<noteq> SessionBindingPhasePending"
  "SessionBindingPhaseError \<noteq> SessionBindingPhaseBound"
  "SessionBindingPhaseError \<noteq> SessionBindingPhaseExpired"
  by (simp_all add: SessionBindingPhasePending_def SessionBindingPhaseBound_def
      SessionBindingPhaseExpired_def SessionBindingPhaseError_def)

subsection \<open>The client verbs\<close>

lemma isPodReady_named [simp]:
  "isPodReady (p\<lparr>pod_namespace := ns, pod_name := n\<rparr>) = isPodReady p"
  by (simp add: isPodReady_def)

lemma podEndpoint_named [simp]:
  "podEndpoint (p\<lparr>pod_namespace := ns, pod_name := n\<rparr>) = podEndpoint p"
  by (simp add: podEndpoint_def)

lemma port_loop_find:
  "port_loop cs port =
     (case find (\<lambda>c. ports c \<noteq> []) cs of None \<Rightarrow> port | Some c \<Rightarrow> containerPort (hd (ports c)))"
  by (induction cs) (auto simp: hd_conv_nth)

lemma Get_pod_cases:
  "Get_pod e k w = (w', r) \<Longrightarrow>
     w' = record_effect (Api (GetPod k)) w \<and>
     (case r of
        Inr pod \<Rightarrow> fault e (GetPod k) = None \<and>
                   (\<exists>stored. pods w k = Some stored \<and>
                       pod = stored\<lparr>pod_namespace := fst k, pod_name := snd k\<rparr>)
      | Inl err \<Rightarrow> (IsNotFound err \<longrightarrow> fault e (GetPod k) = None \<and> pods w k = None))"
  by (auto simp: Get_pod_def Let_def split: option.splits)

lemma Get_pod_hit:
  "fault e (GetPod k) = None \<Longrightarrow> pods w k = Some stored \<Longrightarrow>
   Get_pod e k w = (record_effect (Api (GetPod k)) w,
                    Inr (stored\<lparr>pod_namespace := fst k, pod_name := snd k\<rparr>))"
  by (simp add: Get_pod_def)

lemma Get_binding_Inr:
  "Get_binding e k w = (w', Inr b) \<Longrightarrow>
     w' = record_effect (Api (GetBinding k)) w \<and> fault e (GetBinding k) = None \<and>
     (\<exists>stored. bindings w k = Some stored \<and> b = stored\<lparr>Namespace := fst k, Name := snd k\<rparr>)"
  by (auto simp: Get_binding_def Let_def split: option.splits)

lemma Get_binding_Inl:
  "Get_binding e k w = (w', Inl err) \<Longrightarrow>
     w' = record_effect (Api (GetBinding k)) w \<and>
     (IsNotFound err \<longrightarrow> fault e (GetBinding k) = None \<and> bindings w k = None)"
  by (auto simp: Get_binding_def Let_def split: option.splits)

lemma Get_binding_hit:
  "fault e (GetBinding k) = None \<Longrightarrow> bindings w k = Some stored \<Longrightarrow>
   Get_binding e k w = (record_effect (Api (GetBinding k)) w,
                        Inr (stored\<lparr>Namespace := fst k, Name := snd k\<rparr>))"
  by (simp add: Get_binding_def)

lemma Get_binding_miss:
  "fault e (GetBinding k) = None \<Longrightarrow> bindings w k = None \<Longrightarrow>
   Get_binding e k w = (record_effect (Api (GetBinding k)) w,
                        Inl (NotFound ''sessionbinding not found''))"
  by (simp add: Get_binding_def)

lemma Update_binding_Inr:
  assumes "Update_binding e b w = (w', Inr b')"
  shows "b' = b\<lparr>Status := Status b'\<rparr>"
    and "bindings w' = (bindings w)((Namespace b, Name b) \<mapsto> b')"
    and "pods w' = pods w" and "deployments w' = deployments w"
    and "trace w' = trace w @ [Api (UpdateBinding (Namespace b, Name b))]"
    and "fault e (UpdateBinding (Namespace b, Name b)) = None"
  using assms
  by (auto simp: Update_binding_def Let_def record_effect_def split: option.splits)

lemma Status_Update_None:
  assumes "Status_Update e b w = (w', None)"
  obtains stored where "bindings w (Namespace b, Name b) = Some stored"
    and "bindings w' = (bindings w)((Namespace b, Name b) \<mapsto> stored\<lparr>Status := Status b\<rparr>)"
    and "pods w' = pods w" and "deployments w' = deployments w"
    and "trace w' = trace w @ [Api (UpdateBindingStatus (Namespace b, Name b))]"
  using assms
  by (auto simp: Status_Update_def Let_def record_effect_def split: option.splits)

lemma Status_of_named:
  "sb\<lparr>Namespace := ns, Name := n\<rparr> = b \<Longrightarrow> Status sb = Status b \<and> Finalizers sb = Finalizers b"
  by auto

subsection \<open>\<^verbatim>\<open>ensureSessionPod\<close>\<close>

lemma ensureSessionPod_found:
  assumes "ensureSessionPod e binding w = (w', Inr pod)"
  shows "bindings w' = bindings w \<and> deployments w' = deployments w \<and>
         fault e (GetPod (pod_key binding)) = None \<and>
         (\<exists>stored. pods w' (pod_key binding) = Some stored \<and>
             pod = stored\<lparr>pod_namespace := Namespace binding,
                          pod_name := ''session-'' @ SessionID (Spec binding)\<rparr>) \<and>
         (pods w' = pods w \<or> pods w' = (pods w)(pod_key binding \<mapsto> pod) \<and> \<not> isPodReady pod)"
proof (cases "Get_pod e (pod_key binding) w")
  case (Pair w1 r)
  note got = Get_pod_cases [OF Pair]
  show ?thesis
  proof (cases r)
    case (Inr p)
    with Pair assms got show ?thesis
      by (auto simp: ensureSessionPod_def pod_key_def)
  next
    case (Inl err)
    with Pair assms got show ?thesis
      by (auto simp: ensureSessionPod_def pod_key_def Let_def Get_deployment_def
          SetControllerReference_def Create_pod_def isPodReady_def PodRunning_def
          split: if_splits option.splits prod.splits sum.splits)
  qed
qed

lemma ensureSessionPod_again:
  assumes "ensureSessionPod e binding w = (w', Inr pod)"
    and "pods v = pods w'" and "fault e2 = fault e"
    and "Namespace b2 = Namespace binding" and "Spec b2 = Spec binding"
  shows "ensureSessionPod e2 b2 v = (record_effect (Api (GetPod (pod_key binding))) v, Inr pod)"
proof -
  from ensureSessionPod_found [OF assms(1)] obtain stored where
    "fault e (GetPod (pod_key binding)) = None"
    "pods w' (pod_key binding) = Some stored"
    "pod = stored\<lparr>pod_namespace := Namespace binding,
                  pod_name := ''session-'' @ SessionID (Spec binding)\<rparr>"
    by blast
  with assms(2-) show ?thesis
    by (simp add: ensureSessionPod_def pod_key_def Get_pod_hit Let_def)
qed

lemma ensureSessionPod_stores:
  "ensureSessionPod e b w = (w', r) \<Longrightarrow> bindings w' = bindings w \<and> deployments w' = deployments w"
  by (auto simp: ensureSessionPod_def Let_def Get_pod_def Get_deployment_def
      SetControllerReference_def Create_pod_def
      split: if_splits option.splits prod.splits sum.splits)

lemma ensureSessionPod_trace:
  "ensureSessionPod e b w = (w', r) \<Longrightarrow> \<exists>t. trace w' = trace w @ t"
  by (auto simp: ensureSessionPod_def Let_def Get_pod_def Get_deployment_def
      SetControllerReference_def Create_pod_def record_effect_def
      split: if_splits option.splits prod.splits sum.splits)

lemma ensureSessionPod_observed:
  assumes "ensureSessionPod e binding w = (w', Inr pod)"
  shows "pod_name pod = snd (pod_key binding)"
    and "\<exists>stored. pods w' (pod_key binding) = Some stored \<and>
             isPodReady stored = isPodReady pod \<and> podEndpoint stored = podEndpoint pod"
proof -
  from ensureSessionPod_found [OF assms] obtain stored where
    s: "pods w' (pod_key binding) = Some stored"
    "pod = stored\<lparr>pod_namespace := Namespace binding,
                  pod_name := ''session-'' @ SessionID (Spec binding)\<rparr>"
    by blast
  show "pod_name pod = snd (pod_key binding)" by (simp add: s(2) pod_key_def)
  show "\<exists>stored. pods w' (pod_key binding) = Some stored \<and>
             isPodReady stored = isPodReady pod \<and> podEndpoint stored = podEndpoint pod"
    using s by (intro exI [of _ stored]) simp
qed

subsection \<open>The eight exits of \<^verbatim>\<open>reconcileActive\<close>\<close>

lemma reconcileActive_cases [consumes 1, case_names InvalidSpec EdgeError Expired PodError Pending EndpointMissing RouteError Bound]:
  assumes run: "reconcileActive e b w = (w', b', res, err)"
  obtains
    (InvalidSpec) "SessionID (Spec b) = ''''" "w' = w" "res = Result_empty" "err = None"
      "b' = with_phase SessionBindingPhaseError
              (with_condition e ConditionSessionDiscovered ConditionFalse ''InvalidSpec''
                 ''spec.sessionID must be provided'' b)"
  | (EdgeError) ex x where "SessionID (Spec b) \<noteq> ''''"
      "cf_EnsureSession (CF e) (SessionID (Spec b)) = (ex, Some x)"
      "w' = record_effect (Edge (CallEnsureSession (SessionID (Spec b)))) w"
      "res = \<lparr>Requeue = False, RequeueAfter = Minute\<rparr>" "err = None"
      "b' = with_phase SessionBindingPhaseError
              (with_condition e ConditionSessionDiscovered ConditionUnknown ''CloudflareError''
                 (Error x) b)"
  | (Expired) "SessionID (Spec b) \<noteq> ''''"
      "cf_EnsureSession (CF e) (SessionID (Spec b)) = (False, None)"
      "w' = record_effect (Edge (CallEnsureSession (SessionID (Spec b)))) w"
      "res = Result_empty" "err = None"
      "b' = with_phase SessionBindingPhaseExpired
              (with_condition e ConditionSessionDiscovered ConditionFalse ''NotFound''
                 ''Cloudflare session not found'' b)"
  | (PodError) x where "SessionID (Spec b) \<noteq> ''''"
      "cf_EnsureSession (CF e) (SessionID (Spec b)) = (True, None)"
      "ensureSessionPod e
         (with_condition e ConditionSessionDiscovered ConditionTrue
            ''SessionActive'' ''Cloudflare session is active'' b)
         (record_effect (Edge (CallEnsureSession (SessionID (Spec b)))) w) = (w', Inl x)"
      "res = Result_empty" "err = Some x"
      "b' = with_phase SessionBindingPhaseError
              (with_condition e ConditionSessionDiscovered ConditionTrue
                 ''SessionActive'' ''Cloudflare session is active'' b)"
  | (Pending) pod where "SessionID (Spec b) \<noteq> ''''"
      "cf_EnsureSession (CF e) (SessionID (Spec b)) = (True, None)"
      "ensureSessionPod e
         (with_condition e ConditionSessionDiscovered ConditionTrue
            ''SessionActive'' ''Cloudflare session is active'' b)
         (record_effect (Edge (CallEnsureSession (SessionID (Spec b)))) w) = (w', Inr pod)"
      "\<not> isPodReady pod"
      "res = \<lparr>Requeue = False, RequeueAfter = 10 * Second\<rparr>" "err = None"
      "b' = with_route (pod_name pod) ''''
              (with_phase SessionBindingPhasePending
                 (with_condition e ConditionPodReady ConditionFalse
                    ''WaitingForReadiness'' ''Session pod not ready yet''
                    (with_condition e ConditionSessionDiscovered ConditionTrue
                       ''SessionActive'' ''Cloudflare session is active'' b)))"
  | (EndpointMissing) pod where "SessionID (Spec b) \<noteq> ''''"
      "cf_EnsureSession (CF e) (SessionID (Spec b)) = (True, None)"
      "ensureSessionPod e
         (with_condition e ConditionSessionDiscovered ConditionTrue
            ''SessionActive'' ''Cloudflare session is active'' b)
         (record_effect (Edge (CallEnsureSession (SessionID (Spec b)))) w) = (w', Inr pod)"
      "isPodReady pod" "podEndpoint pod = ''''"
      "res = \<lparr>Requeue = False, RequeueAfter = 5 * Second\<rparr>" "err = None"
      "b' = with_phase SessionBindingPhaseError
              (with_condition e ConditionRouteConfigured ConditionFalse
                 ''PodEndpointMissing'' ''Pod ready but lacks PodIP/port''
                 (with_condition e ConditionPodReady ConditionTrue
                    ''PodReady'' ''Session pod ready''
                    (with_condition e ConditionSessionDiscovered ConditionTrue
                       ''SessionActive'' ''Cloudflare session is active'' b)))"
  | (RouteError) pod w2 x where "SessionID (Spec b) \<noteq> ''''"
      "cf_EnsureSession (CF e) (SessionID (Spec b)) = (True, None)"
      "ensureSessionPod e
         (with_condition e ConditionSessionDiscovered ConditionTrue
            ''SessionActive'' ''Cloudflare session is active'' b)
         (record_effect (Edge (CallEnsureSession (SessionID (Spec b)))) w) = (w2, Inr pod)"
      "isPodReady pod" "podEndpoint pod \<noteq> ''''"
      "cf_EnsureRoute (CF e) (SessionID (Spec b)) (podEndpoint pod) = Some x"
      "w' = record_effect (Edge (CallEnsureRoute (SessionID (Spec b)) (podEndpoint pod))) w2"
      "res = \<lparr>Requeue = False, RequeueAfter = Minute\<rparr>" "err = None"
      "b' = with_phase SessionBindingPhaseError
              (with_condition e ConditionRouteConfigured ConditionFalse
                 ''CloudflareError'' (Error x)
                 (with_condition e ConditionPodReady ConditionTrue
                    ''PodReady'' ''Session pod ready''
                    (with_condition e ConditionSessionDiscovered ConditionTrue
                       ''SessionActive'' ''Cloudflare session is active'' b)))"
  | (Bound) pod w2 where "SessionID (Spec b) \<noteq> ''''"
      "cf_EnsureSession (CF e) (SessionID (Spec b)) = (True, None)"
      "ensureSessionPod e
         (with_condition e ConditionSessionDiscovered ConditionTrue
            ''SessionActive'' ''Cloudflare session is active'' b)
         (record_effect (Edge (CallEnsureSession (SessionID (Spec b)))) w) = (w2, Inr pod)"
      "isPodReady pod" "podEndpoint pod \<noteq> ''''"
      "cf_EnsureRoute (CF e) (SessionID (Spec b)) (podEndpoint pod) = None"
      "w' = record_effect (Edge (CallEnsureRoute (SessionID (Spec b)) (podEndpoint pod))) w2"
      "res = Result_empty" "err = None"
      "b' = with_condition e ConditionRouteConfigured ConditionTrue
              ''RouteConfigured'' ''Cloudflare route configured''
              (with_route (pod_name pod) (podEndpoint pod)
                 (with_phase SessionBindingPhaseBound
                    (with_condition e ConditionPodReady ConditionTrue
                       ''PodReady'' ''Session pod ready''
                       (with_condition e ConditionSessionDiscovered ConditionTrue
                          ''SessionActive'' ''Cloudflare session is active'' b))))"
proof (cases "SessionID (Spec b) = ''''")
  case True
  with run show ?thesis by (intro InvalidSpec) (simp_all add: reconcileActive_def)
next
  case sid: False
  obtain ex sessionErr where
    es: "cf_EnsureSession (CF e) (SessionID (Spec b)) = (ex, sessionErr)"
    by (cases "cf_EnsureSession (CF e) (SessionID (Spec b))")
  show ?thesis
  proof (cases sessionErr)
    case (Some x)
    with run sid es show ?thesis
      by (intro EdgeError [of ex x]) (simp_all add: reconcileActive_def Let_def)
  next
    case None
    show ?thesis
    proof (cases ex)
      case False
      with run sid es None show ?thesis
        by (intro Expired) (simp_all add: reconcileActive_def Let_def)
    next
      case True
      obtain w2 r where ep: "ensureSessionPod e
         (with_condition e ConditionSessionDiscovered ConditionTrue
            ''SessionActive'' ''Cloudflare session is active'' b)
         (record_effect (Edge (CallEnsureSession (SessionID (Spec b)))) w) = (w2, r)"
        by (cases "ensureSessionPod e
         (with_condition e ConditionSessionDiscovered ConditionTrue
            ''SessionActive'' ''Cloudflare session is active'' b)
         (record_effect (Edge (CallEnsureSession (SessionID (Spec b)))) w)")
      show ?thesis
      proof (cases r)
        case (Inl x)
        with run sid es None True ep show ?thesis
          by (intro PodError [of x]) (simp_all add: reconcileActive_def Let_def)
      next
        case (Inr pod)
        show ?thesis
        proof (cases "isPodReady pod")
          case False
          with run sid es None True ep Inr show ?thesis
            by (intro Pending [of pod]) (simp_all add: reconcileActive_def Let_def)
        next
          case ready: True
          show ?thesis
          proof (cases "podEndpoint pod = ''''")
            case True
            with run sid es None \<open>ex\<close> ep Inr ready show ?thesis
              by (intro EndpointMissing [of pod]) (simp_all add: reconcileActive_def Let_def)
          next
            case ep_ok: False
            show ?thesis
            proof (cases "cf_EnsureRoute (CF e) (SessionID (Spec b)) (podEndpoint pod)")
              case (Some x)
              with run sid es None \<open>ex\<close> ep Inr ready ep_ok show ?thesis
                by (intro RouteError [where pod = pod and ?w2.0 = w2 and x = x]) (simp_all add: reconcileActive_def Let_def)
            next
              case route_ok: None
              with run sid es \<open>sessionErr = None\<close> \<open>ex\<close> ep Inr ready ep_ok show ?thesis
                by (intro Bound [where pod = pod and ?w2.0 = w2]) (simp_all add: reconcileActive_def Let_def)
            qed
          qed
        qed
      qed
    qed
  qed
qed

lemma reconcileActive_frame:
  assumes "reconcileActive e b w = (w', b', res, err)"
  shows "b' = b\<lparr>Status := Status b'\<rparr> \<and>
         ObservedGeneration (Status b') = ObservedGeneration (Status b) \<and>
         LastReconcileTime (Status b') = LastReconcileTime (Status b) \<and>
         bindings w' = bindings w \<and> deployments w' = deployments w"
  using assms
proof (cases rule: reconcileActive_cases)
  case InvalidSpec
  then show ?thesis by (simp add: with_condition_def with_phase_def)
next
  case (EdgeError ex x)
  then show ?thesis by (simp add: with_condition_def with_phase_def)
next
  case Expired
  then show ?thesis by (simp add: with_condition_def with_phase_def)
next
  case (PodError x)
  from ensureSessionPod_stores [OF PodError(3)] PodError(6)
  show ?thesis by (simp add: with_condition_def with_phase_def)
next
  case (Pending pod)
  from ensureSessionPod_stores [OF Pending(3)] Pending(7)
  show ?thesis by (simp add: with_condition_def with_phase_def with_route_def)
next
  case (EndpointMissing pod)
  from ensureSessionPod_stores [OF EndpointMissing(3)] EndpointMissing(8)
  show ?thesis by (simp add: with_condition_def with_phase_def)
next
  case (RouteError pod w2 x)
  from ensureSessionPod_stores [OF RouteError(3)] RouteError(7,10)
  show ?thesis by (simp add: with_condition_def with_phase_def)
next
  case (Bound pod w2)
  from ensureSessionPod_stores [OF Bound(3)] Bound(7,10)
  show ?thesis by (simp add: with_condition_def with_phase_def with_route_def)
qed

lemma reconcileActive_trace:
  assumes "reconcileActive e b w = (w', b', res, err)"
  shows "\<exists>t. trace w' = trace w @ t"
  using assms
proof (cases rule: reconcileActive_cases)
  case (PodError x)
  from ensureSessionPod_trace [OF PodError(3)] show ?thesis by auto
next
  case (Pending pod)
  from ensureSessionPod_trace [OF Pending(3)] show ?thesis by auto
next
  case (EndpointMissing pod)
  from ensureSessionPod_trace [OF EndpointMissing(3)] show ?thesis by auto
next
  case (RouteError pod w2 x)
  from ensureSessionPod_trace [OF RouteError(3)] RouteError(7) show ?thesis by auto
next
  case (Bound pod w2)
  from ensureSessionPod_trace [OF Bound(3)] Bound(7) show ?thesis by auto
qed simp_all

lemma reconcileActive_no_requeue:
  assumes "reconcileActive e b w = (w', b', res, err)"
  shows "\<not> Requeue res"
  using assms by (cases rule: reconcileActive_cases) (simp_all add: Result_empty_def)

lemma reconcileActive_again:
  assumes run: "reconcileActive e b w = (w', b', res, None)"
    and v: "pods v = pods w'"
    and e2: "CF e2 = CF e" "fault e2 = fault e"
  shows "\<exists>v'. reconcileActive e2 b' v = (v', b', res, None) \<and>
              pods v' = pods v \<and> bindings v' = bindings v \<and> deployments v' = deployments v"
proof (cases "SessionID (Spec b) = ''''")
  case True
  with run have b': "b' = with_phase SessionBindingPhaseError
           (with_condition e ConditionSessionDiscovered ConditionFalse ''InvalidSpec''
              ''spec.sessionID must be provided'' b)" and res: "res = Result_empty"
    by (simp_all add: reconcileActive_def)
  have "with_condition e2 ConditionSessionDiscovered ConditionFalse ''InvalidSpec''
              ''spec.sessionID must be provided'' b' = b'"
    by (rule with_condition_absorbed) (simp add: b' setCondition_holds)
  then show ?thesis using True b' res
    by (simp add: reconcileActive_def with_phase_absorbed)
next
  case sid: False
  let ?sid = "SessionID (Spec b)"
  let ?w1 = "record_effect (Edge (CallEnsureSession ?sid)) w"
  let ?v1 = "record_effect (Edge (CallEnsureSession ?sid)) v"
  obtain sessionExists sessionErr where
    es: "cf_EnsureSession (CF e) ?sid = (sessionExists, sessionErr)"
    by (cases "cf_EnsureSession (CF e) ?sid")
  show ?thesis
  proof (cases sessionErr)
    case (Some x)
    with run sid es have b': "b' = with_phase SessionBindingPhaseError
                (with_condition e ConditionSessionDiscovered ConditionUnknown ''CloudflareError''
                   (Error x) b)" and res: "res = \<lparr>Requeue = False, RequeueAfter = Minute\<rparr>"
      by (simp_all add: reconcileActive_def Let_def)
    have "with_condition e2 ConditionSessionDiscovered ConditionUnknown ''CloudflareError''
                   (Error x) b' = b'"
      by (rule with_condition_absorbed) (simp add: b' setCondition_holds)
    then show ?thesis using sid b' res es Some e2
      by (simp add: reconcileActive_def with_phase_absorbed Let_def)
  next
    case None
    show ?thesis
    proof (cases sessionExists)
      case False
      with run sid es None have b': "b' = with_phase SessionBindingPhaseExpired
                  (with_condition e ConditionSessionDiscovered ConditionFalse ''NotFound''
                     ''Cloudflare session not found'' b)" and res: "res = Result_empty"
        by (simp_all add: reconcileActive_def Let_def)
      have "with_condition e2 ConditionSessionDiscovered ConditionFalse ''NotFound''
                     ''Cloudflare session not found'' b' = b'"
        by (rule with_condition_absorbed) (simp add: b' setCondition_holds)
      then show ?thesis using sid b' res es None False e2
        by (simp add: reconcileActive_def with_phase_absorbed Let_def)
    next
      case True
      let ?b1 = "with_condition e ConditionSessionDiscovered ConditionTrue
                   ''SessionActive'' ''Cloudflare session is active'' b"
      obtain w2 r where ep: "ensureSessionPod e ?b1 ?w1 = (w2, r)"
        by (cases "ensureSessionPod e ?b1 ?w1")
      from run sid es None True ep obtain pod where r: "r = Inr pod"
        by (cases r) (simp_all add: reconcileActive_def Let_def)
      have podsv: "pods ?v1 = pods w2 \<Longrightarrow> Namespace b2 = Namespace b \<Longrightarrow> Spec b2 = Spec b \<Longrightarrow>
            ensureSessionPod e2 b2 ?v1 = (record_effect (Api (GetPod (pod_key ?b1))) ?v1, Inr pod)" for b2
        using ensureSessionPod_again [OF ep [unfolded r], of ?v1 e2 b2] e2 by simp
      have w2: "pods w2 = pods w'"
        using run sid es None True ep r
        by (auto simp: reconcileActive_def Let_def split: if_splits option.splits)
      have meta: "Spec b' = Spec b" "Namespace b' = Namespace b"
        using run sid es None True ep r
        by (auto simp: reconcileActive_def Let_def split: if_splits option.splits)
      have again: "ensureSessionPod e2 b' ?v1 =
                     (record_effect (Api (GetPod (pod_key ?b1))) ?v1, Inr pod)"
        using podsv [of b'] v w2 meta by simp
      have sd: "holds_condition (Conditions (Status b')) ConditionSessionDiscovered ConditionTrue
                   ''SessionActive'' ''Cloudflare session is active''"
        using run sid es None True ep r
        by (auto simp: reconcileActive_def Let_def setCondition_holds setCondition_keeps
            split: if_splits option.splits)
      have h1: "with_condition e2 ConditionSessionDiscovered ConditionTrue
                   ''SessionActive'' ''Cloudflare session is active'' b' = b'"
        by (rule with_condition_absorbed) (rule sd)
      show ?thesis
      proof (cases "isPodReady pod")
        case False
        with run sid es None True ep r have b': "b' = with_route (pod_name pod) ''''
                         (with_phase SessionBindingPhasePending
                            (with_condition e ConditionPodReady ConditionFalse
                               ''WaitingForReadiness'' ''Session pod not ready yet'' ?b1))"
          and res: "res = \<lparr>Requeue = False, RequeueAfter = 10 * Second\<rparr>"
          by (simp_all add: reconcileActive_def Let_def)
        have h2: "with_condition e2 ConditionPodReady ConditionFalse
                               ''WaitingForReadiness'' ''Session pod not ready yet'' b' = b'"
          by (rule with_condition_absorbed) (simp add: b' setCondition_holds)
        have h3: "with_phase SessionBindingPhasePending b' = b'"
          by (rule with_phase_absorbed) (simp add: b')
        have h4: "with_route (pod_name pod) '''' b' = b'"
          by (rule with_route_absorbed) (simp_all add: b')
        show ?thesis using sid es None True e2 False res meta again h1 h2 h3 h4
          by (simp add: reconcileActive_def Let_def)
      next
        case ready: True
        let ?b2 = "with_condition e ConditionPodReady ConditionTrue
                     ''PodReady'' ''Session pod ready'' ?b1"
        have pr: "holds_condition (Conditions (Status b')) ConditionPodReady ConditionTrue
                   ''PodReady'' ''Session pod ready''"
          using run sid es None True ep r ready
          by (auto simp: reconcileActive_def Let_def setCondition_holds setCondition_keeps
              split: if_splits option.splits)
        have h2: "with_condition e2 ConditionPodReady ConditionTrue
                     ''PodReady'' ''Session pod ready'' b' = b'"
          by (rule with_condition_absorbed) (rule pr)
        show ?thesis
        proof (cases "podEndpoint pod = ''''")
          case True
          with run sid es None \<open>sessionExists\<close> ep r ready
          have b': "b' = with_phase SessionBindingPhaseError
                            (with_condition e ConditionRouteConfigured ConditionFalse
                               ''PodEndpointMissing'' ''Pod ready but lacks PodIP/port'' ?b2)"
            and res: "res = \<lparr>Requeue = False, RequeueAfter = 5 * Second\<rparr>"
            by (simp_all add: reconcileActive_def Let_def)
          have h3: "with_condition e2 ConditionRouteConfigured ConditionFalse
                               ''PodEndpointMissing'' ''Pod ready but lacks PodIP/port'' b' = b'"
            by (rule with_condition_absorbed) (simp add: b' setCondition_holds)
          have h4: "with_phase SessionBindingPhaseError b' = b'"
            by (rule with_phase_absorbed) (simp add: b')
          show ?thesis using sid es None \<open>sessionExists\<close> e2 ready True res meta again h1 h2 h3 h4
            by (simp add: reconcileActive_def Let_def)
        next
          case ep_ok: False
          show ?thesis
          proof (cases "cf_EnsureRoute (CF e) ?sid (podEndpoint pod)")
            case (Some err)
            with run sid es None \<open>sessionExists\<close> ep r ready ep_ok
            have b': "b' = with_phase SessionBindingPhaseError
                                 (with_condition e ConditionRouteConfigured ConditionFalse
                                    ''CloudflareError'' (Error err) ?b2)"
              and res: "res = \<lparr>Requeue = False, RequeueAfter = Minute\<rparr>"
              by (simp_all add: reconcileActive_def Let_def)
            have h3: "with_condition e2 ConditionRouteConfigured ConditionFalse
                                    ''CloudflareError'' (Error err) b' = b'"
              by (rule with_condition_absorbed) (simp add: b' setCondition_holds)
            have h4: "with_phase SessionBindingPhaseError b' = b'"
              by (rule with_phase_absorbed) (simp add: b')
            show ?thesis
              using sid es None \<open>sessionExists\<close> e2 ready ep_ok Some res meta again h1 h2 h3 h4
              by (simp add: reconcileActive_def Let_def)
          next
            case route_ok: None
            with run sid es \<open>sessionErr = None\<close> \<open>sessionExists\<close> ep r ready ep_ok
            have b': "b' = with_condition e ConditionRouteConfigured ConditionTrue
                                 ''RouteConfigured'' ''Cloudflare route configured''
                                 (with_route (pod_name pod) (podEndpoint pod)
                                    (with_phase SessionBindingPhaseBound ?b2))"
              and res: "res = Result_empty"
              by (simp_all add: reconcileActive_def Let_def)
            have h3: "with_phase SessionBindingPhaseBound b' = b'"
              by (rule with_phase_absorbed) (simp add: b')
            have h4: "with_route (pod_name pod) (podEndpoint pod) b' = b'"
              by (rule with_route_absorbed) (simp_all add: b')
            have h5: "with_condition e2 ConditionRouteConfigured ConditionTrue
                                 ''RouteConfigured'' ''Cloudflare route configured'' b' = b'"
              by (rule with_condition_absorbed) (simp add: b' setCondition_holds)
            show ?thesis
              using sid es \<open>sessionErr = None\<close> \<open>sessionExists\<close> e2 ready ep_ok route_ok
                res meta again h1 h2 h3 h4 h5
              by (simp add: reconcileActive_def Let_def)
          qed
        qed
      qed
    qed
  qed
qed

subsection \<open>Status write-back and the whole reconcile\<close>

lemma patchStatus_ok:
  assumes "patchStatus e b w = (w', None)"
    and "bindings w (Namespace b, Name b) = Some sb"
    and "sb\<lparr>Namespace := Namespace b, Name := Name b\<rparr> = b\<lparr>Status := Status sb\<rparr>"
  shows "(\<exists>sb'. bindings w' = (bindings w)((Namespace b, Name b) \<mapsto> sb') \<and>
            sb'\<lparr>Namespace := Namespace b, Name := Name b\<rparr> = b) \<and>
         pods w' = pods w \<and> deployments w' = deployments w"
proof -
  let ?k = "(Namespace b, Name b)"
  let ?cur = "sb\<lparr>Namespace := Namespace b, Name := Name b\<rparr>"
  have f: "fault e (GetBinding ?k) = None"
    using assms(1) by (auto simp: patchStatus_def Get_binding_def Let_def split: option.splits)
  have g: "Get_binding e ?k w = (record_effect (Api (GetBinding ?k)) w, Inr ?cur)"
    using Get_binding_hit [OF f assms(2)] by simp
  show ?thesis
  proof (cases "Status sb = Status b")
    case True
    then have "?cur = b" using assms(3) by (metis SessionBinding.update_convs(7) SessionBinding.surjective)
    moreover have "w' = record_effect (Api (GetBinding ?k)) w"
      using assms(1) g True by (simp add: patchStatus_def)
    ultimately show ?thesis using assms(2) by (auto intro!: exI [of _ sb])
  next
    case False
    then have su: "Status_Update e (?cur\<lparr>Status := Status b\<rparr>) (record_effect (Api (GetBinding ?k)) w) = (w', None)"
      using assms(1) g by (simp add: patchStatus_def)
    from su assms(2)
    have "bindings w' = (bindings w)(?k \<mapsto> sb\<lparr>Status := Status b\<rparr>)"
      and "pods w' = pods w" "deployments w' = deployments w"
      by (auto elim!: Status_Update_None)
    moreover have "(sb\<lparr>Status := Status b\<rparr>)\<lparr>Namespace := Namespace b, Name := Name b\<rparr> = b"
    proof -
      have "(sb\<lparr>Status := Status b\<rparr>)\<lparr>Namespace := Namespace b, Name := Name b\<rparr>
            = ?cur\<lparr>Status := Status b\<rparr>" by simp
      also have "\<dots> = (b\<lparr>Status := Status sb\<rparr>)\<lparr>Status := Status b\<rparr>" using assms(3) by simp
      also have "\<dots> = b" by simp
      finally show ?thesis .
    qed
    ultimately show ?thesis by blast
  qed
qed

lemma patchStatus_noop:
  assumes "fault e (GetBinding (Namespace b, Name b)) = None"
    and "bindings w (Namespace b, Name b) = Some sb"
    and "sb\<lparr>Namespace := Namespace b, Name := Name b\<rparr> = b"
  shows "patchStatus e b w = (record_effect (Api (GetBinding (Namespace b, Name b))) w, None)"
  using assms by (simp add: patchStatus_def Get_binding_hit)

lemma patchStatus_effects:
  assumes "patchStatus e b w = (w', r)"
  shows "\<exists>t. trace w' = trace w @ Api (GetBinding (Namespace b, Name b)) # t"
    and "pods w' = pods w" and "deployments w' = deployments w"
    and "map_option Finalizers (bindings w' k) = map_option Finalizers (bindings w k)"
  using assms
  by (auto simp: patchStatus_def Get_binding_def Status_Update_def Let_def record_effect_def
      split: if_splits option.splits prod.splits sum.splits)

lemma Reconcile_active_ok:
  assumes run: "Reconcile e req w = (w1, res, None)"
    and st0: "bindings w req = Some stored0"
    and active: "IsZero (DeletionTimestamp stored0)"
  obtains b1 w2 w3 b4 sb' where
    "Namespace b1 = fst req" and "Name b1 = snd req" and "Spec b1 = Spec stored0"
    and "Generation b1 = Generation stored0"
    and "pods w2 = pods w" and "deployments w2 = deployments w"
    and "reconcileActive e
           (b1\<lparr>Status := (Status b1)\<lparr>ObservedGeneration := Generation b1,
                                     LastReconcileTime := Some (clock_now e)\<rparr>\<rparr>) w2
         = (w3, b4, res, None)"
    and "bindings w1 req = Some sb'" and "sb'\<lparr>Namespace := fst req, Name := snd req\<rparr> = b4"
    and "pods w1 = pods w3" and "deployments w1 = deployments w3"
    and "ContainsFinalizer b4 sessionBindingFinalizer" and "IsZero (DeletionTimestamp b4)"
    and "ObservedGeneration (Status b4) = Generation b4"
    and "LastReconcileTime (Status b4) = Some (clock_now e)"
    and "Namespace b4 = fst req" and "Name b4 = snd req"
    and "fault e (GetBinding req) = None"
proof -
  let ?fin = sessionBindingFinalizer
  obtain wg r where Pair: "Get_binding e req w = (wg, r)" by (cases "Get_binding e req w")
  have f: "fault e (GetBinding req) = None"
    using run st0 by (auto simp: Reconcile_def Get_binding_def IgnoreNotFound_def Let_def
        split: option.splits)
  define b0 where "b0 = stored0\<lparr>Namespace := fst req, Name := snd req\<rparr>"
  have wg: "wg = record_effect (Api (GetBinding req)) w" and Inr: "r = Inr b0"
    using Pair Get_binding_hit [OF f st0] by (simp_all add: b0_def)
  have active0: "IsZero (DeletionTimestamp b0)" using active by (simp add: b0_def)
  obtain w2 r2 where step:
    "(if \<not> ContainsFinalizer b0 ?fin then Update_binding e (AddFinalizer b0 ?fin) wg
      else (wg, Inr b0)) = (w2, r2)"
    by (cases "if \<not> ContainsFinalizer b0 ?fin then Update_binding e (AddFinalizer b0 ?fin) wg
      else (wg, Inr b0)")
  from run Pair Inr active0 step obtain b1 where r2: "r2 = Inr b1"
    by (cases r2) (simp_all add: Reconcile_def)
  have e1: "\<exists>s. b1 = (AddFinalizer b0 ?fin)\<lparr>Status := s\<rparr>"
  proof (cases "ContainsFinalizer b0 ?fin")
    case True
    with step r2 have "b1 = b0" by simp
    with True show ?thesis
      by (auto simp: AddFinalizer_def ContainsFinalizer_def intro!: exI [of _ "Status b0"])
  next
    case False
    with step r2 have up: "Update_binding e (AddFinalizer b0 ?fin) wg = (w2, Inr b1)" by simp
    from Update_binding_Inr(1) [OF up] show ?thesis by (rule exI)
  qed
  then obtain s where eb: "b1 = (AddFinalizer b0 ?fin)\<lparr>Status := s\<rparr>" ..
  have fin: "ContainsFinalizer b1 ?fin"
    by (simp add: eb AddFinalizer_def ContainsFinalizer_def)
  have notdel: "IsZero (DeletionTimestamp b1)"
    using active0 by (simp add: eb AddFinalizer_def)
  have key1: "Namespace b1 = fst req" "Name b1 = snd req"
    by (simp_all add: eb AddFinalizer_def b0_def)
  have meta1: "Spec b1 = Spec stored0" "Generation b1 = Generation stored0"
    by (simp_all add: eb AddFinalizer_def b0_def)
  have b1: "\<exists>sb. bindings w2 req = Some sb \<and> sb\<lparr>Namespace := fst req, Name := snd req\<rparr> = b1"
  proof (cases "ContainsFinalizer b0 ?fin")
    case True
    with step r2 have "w2 = wg" "b1 = b0" by simp_all
    with st0 wg show ?thesis by (intro exI [of _ stored0]) (simp add: b0_def)
  next
    case False
    with step r2 have up: "Update_binding e (AddFinalizer b0 ?fin) wg = (w2, Inr b1)" by simp
    have k: "(Namespace (AddFinalizer b0 ?fin), Name (AddFinalizer b0 ?fin)) = req"
      by (simp add: AddFinalizer_def b0_def)
    from Update_binding_Inr(2) [OF up] have "bindings w2 req = Some b1"
      unfolding k by simp
    moreover have "b1\<lparr>Namespace := fst req, Name := snd req\<rparr> = b1"
      by (simp add: eb AddFinalizer_def b0_def)
    ultimately show ?thesis by simp
  qed
  have w2: "pods w2 = pods w \<and> deployments w2 = deployments w"
  proof (cases "ContainsFinalizer b0 ?fin")
    case True
    with step wg show ?thesis by auto
  next
    case False
    with step r2 have up: "Update_binding e (AddFinalizer b0 ?fin) wg = (w2, Inr b1)" by simp
    from Update_binding_Inr(3,4) [OF up] wg show ?thesis by simp
  qed
  let ?b3 = "b1\<lparr>Status := (Status b1)
                    \<lparr>ObservedGeneration := Generation b1,
                     LastReconcileTime := Some (clock_now e)\<rparr>\<rparr>"
  obtain w3 b4 res' rerr where ra: "reconcileActive e ?b3 w2 = (w3, b4, res', rerr)"
    by (cases "reconcileActive e ?b3 w2") auto
  obtain w4 serr where ps: "patchStatus e b4 w3 = (w4, serr)"
    by (cases "patchStatus e b4 w3")
  from run Pair Inr active0 step r2 ra ps
  have ok: "rerr = None" "serr = None" "w1 = w4" "res = res'"
    by (auto simp: Reconcile_def Let_def split: option.splits)
  note fr = reconcileActive_frame [OF ra]
  from fr have b4: "b4 = ?b3\<lparr>Status := Status b4\<rparr>" by blast
  have b4': "b4 = b1\<lparr>Status := Status b4\<rparr>"
    by (subst b4) simp
  have key4: "Namespace b4 = fst req" "Name b4 = snd req"
    by (subst b4', simp add: key1)+
  have gen4: "Generation b4 = Generation b1" by (subst b4') simp
  have stamp: "ObservedGeneration (Status b4) = Generation b4"
    "LastReconcileTime (Status b4) = Some (clock_now e)"
    using fr gen4 by simp_all
  from b1 obtain sb where sb: "bindings w2 req = Some sb"
    "sb\<lparr>Namespace := fst req, Name := snd req\<rparr> = b1" by blast
  have sb3: "bindings w3 (Namespace b4, Name b4) = Some sb"
    using fr sb(1) key4 by simp
  have "sb\<lparr>Namespace := Namespace b4, Name := Name b4\<rparr> = b4\<lparr>Status := Status sb\<rparr>"
  proof -
    have "Status (sb\<lparr>Namespace := fst req, Name := snd req\<rparr>) = Status b1"
      by (simp only: sb(2))
    then have "Status sb = Status b1" by simp
    then have "b4\<lparr>Status := Status sb\<rparr> = b1" by (subst b4') simp
    then show ?thesis using sb(2) key4 by simp
  qed
  from patchStatus_ok [OF ps [unfolded ok] sb3 this] obtain sb' where
    st4: "bindings w4 = (bindings w3)((Namespace b4, Name b4) \<mapsto> sb')"
    and sb': "sb'\<lparr>Namespace := Namespace b4, Name := Name b4\<rparr> = b4"
    and w4: "pods w4 = pods w3" "deployments w4 = deployments w3"
    by blast
  have f4: "bindings w4 req = Some sb'" using st4 key4 by simp
  have del4: "IsZero (DeletionTimestamp b4)" using notdel by (subst b4') simp
  have fin4: "ContainsFinalizer b4 ?fin"
    using fin by (subst b4') (simp add: ContainsFinalizer_def)
  show thesis
    using key1 meta1 w2 ra [unfolded ok(1) ok(4) [symmetric]] f4 [folded ok(3)] sb' [unfolded key4]
      w4 [folded ok(3)] fin4 del4 stamp key4 f
    by (intro that [of b1 w2 w3 b4 sb']) simp_all
qed

lemma Reconcile_again:
  assumes run: "Reconcile e req w = (w1, res, None)"
    and e2: "CF e2 = CF e" "fault e2 = fault e" "clock_now e2 = clock_now e"
  shows "\<exists>w2. Reconcile e2 req w1 = (w2, res, None) \<and>
              bindings w2 = bindings w1 \<and> pods w2 = pods w1 \<and> deployments w2 = deployments w1"
proof (cases "Get_binding e req w")
  case (Pair wg r)
  show ?thesis
  proof (cases r)
    case (Inl err)
    with run Pair have nf: "IsNotFound err" and w1: "w1 = wg" and res: "res = Result_empty"
      by (auto simp: Reconcile_def IgnoreNotFound_def split: if_splits)
    from Get_binding_Inl [OF Pair [unfolded Inl]] nf
    have "fault e (GetBinding req) = None" "bindings w req = None"
      and wg: "wg = record_effect (Api (GetBinding req)) w" by auto
    then have "Get_binding e2 req w1 =
        (record_effect (Api (GetBinding req)) w1, Inl (NotFound ''sessionbinding not found''))"
      using e2 w1 by (simp add: Get_binding_miss)
    then show ?thesis using res
      by (simp add: Reconcile_def IgnoreNotFound_def)
  next
    case (Inr b0)
    from Get_binding_Inr [OF Pair [unfolded Inr]] obtain stored0 where
      wg: "wg = record_effect (Api (GetBinding req)) w"
      and f: "fault e (GetBinding req) = None"
      and st0: "bindings w req = Some stored0"
      and b0: "b0 = stored0\<lparr>Namespace := fst req, Name := snd req\<rparr>"
      by blast
    show ?thesis
    proof (cases "IsZero (DeletionTimestamp b0)")
      case deleting: False
      with run Pair Inr have hd: "handleDeletion e b0 wg = (w1, res, None)"
        by (simp add: Reconcile_def)
      show ?thesis
      proof (cases "ContainsFinalizer b0 sessionBindingFinalizer")
        case False
        with hd have "w1 = wg" "res = Result_empty" by (simp_all add: handleDeletion_def)
        moreover have "Get_binding e2 req w1 = (record_effect (Api (GetBinding req)) w1, Inr b0)"
          using Get_binding_hit [of e2 req w1 stored0] e2 f st0 b0 \<open>w1 = wg\<close> wg by simp
        ultimately show ?thesis using deleting False
          by (simp add: Reconcile_def handleDeletion_def)
      next
        case True
        with hd obtain wc bu where
          up: "Update_binding e (RemoveFinalizer b0 sessionBindingFinalizer) wc = (w1, Inr bu)"
          and res: "res = Result_empty"
          by (auto simp: handleDeletion_def split: prod.splits option.splits sum.splits)
        have keyr: "(Namespace (RemoveFinalizer b0 sessionBindingFinalizer),
                     Name (RemoveFinalizer b0 sessionBindingFinalizer)) = req"
          by (simp add: RemoveFinalizer_def b0)
        from Update_binding_Inr(1,2) [OF up]
        have bu: "bu = (RemoveFinalizer b0 sessionBindingFinalizer)\<lparr>Status := Status bu\<rparr>"
          and st1: "bindings w1 req = Some bu"
          unfolding keyr by simp_all
        have bu_norm: "bu\<lparr>Namespace := fst req, Name := snd req\<rparr> = bu"
          by (subst (2) bu, subst bu) (simp add: RemoveFinalizer_def b0)
        have "Get_binding e2 req w1 = (record_effect (Api (GetBinding req)) w1, Inr bu)"
          using Get_binding_hit [of e2 req w1 bu] e2 f st1 bu_norm by simp
        moreover have "\<not> IsZero (DeletionTimestamp bu)"
          using deleting by (subst bu) (simp add: RemoveFinalizer_def)
        moreover have "\<not> ContainsFinalizer bu sessionBindingFinalizer"
          by (subst bu) (simp add: RemoveFinalizer_def ContainsFinalizer_def)
        ultimately show ?thesis using res
          by (simp add: Reconcile_def handleDeletion_def)
      qed
    next
      case True
      then have active: "IsZero (DeletionTimestamp stored0)" by (simp add: b0)
      from run st0 active show ?thesis
      proof (rule Reconcile_active_ok)
        fix b1 w2 w3 b4 sb'
        assume ra: "reconcileActive e
           (b1\<lparr>Status := (Status b1)\<lparr>ObservedGeneration := Generation b1,
                                     LastReconcileTime := Some (clock_now e)\<rparr>\<rparr>) w2
             = (w3, b4, res, None)"
          and f4: "bindings w1 req = Some sb'"
          and sb': "sb'\<lparr>Namespace := fst req, Name := snd req\<rparr> = b4"
          and w4: "pods w1 = pods w3"
          and fin4: "ContainsFinalizer b4 sessionBindingFinalizer"
          and del4: "IsZero (DeletionTimestamp b4)"
          and stamp: "ObservedGeneration (Status b4) = Generation b4"
            "LastReconcileTime (Status b4) = Some (clock_now e)"
          and key4: "Namespace b4 = fst req" "Name b4 = snd req"
        let ?wg2 = "record_effect (Api (GetBinding req)) w1"
        have g2: "Get_binding e2 req w1 = (?wg2, Inr b4)"
          using Get_binding_hit [of e2 req w1 sb'] e2 f f4 sb' by simp
        have stamp4: "b4\<lparr>Status := (Status b4)
                          \<lparr>ObservedGeneration := Generation b4,
                           LastReconcileTime := Some (clock_now e2)\<rparr>\<rparr> = b4"
          using stamp e2 by simp
        from reconcileActive_again [OF ra, of ?wg2 e2] w4 e2 obtain v' where
          ra2: "reconcileActive e2 b4 ?wg2 = (v', b4, res, None)"
          and v': "pods v' = pods w1" "bindings v' = bindings w1" "deployments v' = deployments w1"
          by auto
        have ps2: "patchStatus e2 b4 v' = (record_effect (Api (GetBinding req)) v', None)"
          using patchStatus_noop [of e2 b4 v' sb'] e2 f f4 v' sb' key4 by simp
        show ?thesis
          using g2 del4 fin4 stamp4 ra2 ps2 v'
          by (simp add: Reconcile_def)
      qed
    qed
  qed
qed

lemma Reconcile_repeat_stable:
  assumes "Reconcile e0 req w = (w1, res, None)"
    and "CF e0 = CF e" "fault e0 = fault e" "clock_now e0 = clock_now e"
  shows "bindings (Reconcile_repeat e req ts w1) = bindings w1 \<and>
         pods (Reconcile_repeat e req ts w1) = pods w1 \<and>
         deployments (Reconcile_repeat e req ts w1) = deployments w1 \<and>
         (\<forall>t. snd (Reconcile (e\<lparr>wall_now := t\<rparr>) req (Reconcile_repeat e req ts w1)) = (res, None))"
  using assms
proof (induction ts arbitrary: e0 w w1)
  case Nil
  have "snd (Reconcile (e\<lparr>wall_now := t\<rparr>) req w1) = (res, None)" for t
    using Reconcile_again [OF Nil(1), of "e\<lparr>wall_now := t\<rparr>" ] Nil(2-) by auto
  then show ?case by simp
next
  case (Cons t ts)
  from Reconcile_again [OF Cons.prems(1), of "e\<lparr>wall_now := t\<rparr>"] Cons.prems(2-)
  obtain w2 where r2: "Reconcile (e\<lparr>wall_now := t\<rparr>) req w1 = (w2, res, None)"
    and st: "bindings w2 = bindings w1" "pods w2 = pods w1" "deployments w2 = deployments w1"
    by auto
  from Cons.IH [OF r2] st r2 show ?case by simp
qed

subsection \<open>Teardown: a failed route retraction keeps the finalizer\<close>

text \<open>
  Whatever the pod step did, an error from \<^verbatim>\<open>DeleteRoute\<close> makes
  \<^verbatim>\<open>handleDeletion\<close> return an error before the event and before the metadata write.
\<close>

lemma handleDeletion_route_error_blocks:
  assumes "ContainsFinalizer b sessionBindingFinalizer"
    and "SessionID (Spec b) \<noteq> ''''"
    and "cf_DeleteRoute (CF e) (SessionID (Spec b)) = Some x"
    and "handleDeletion e b w = (w', res, err)"
  shows "err \<noteq> None \<and> bindings w' = bindings w \<and>
         (\<exists>new. trace w' = trace w @ new \<and>
            Api (UpdateBinding (Namespace b, Name b)) \<notin> set new \<and>
            RecordEvent ''Normal'' ''CleanedUp'' ''Removed Cloudflare route and session pod''
              \<notin> set new)"
  using assms
  by (auto simp: handleDeletion_def cleanupResources_def Get_pod_def Delete_pod_def Let_def
      record_effect_def split: if_splits option.splits prod.splits sum.splits intro: sym)

text \<open>
  The two outcomes of the pod step that the code does handle: a pod that is already gone
  lets teardown go on to the route, and a Delete that fails in transport is returned.
\<close>

lemma cleanupResources_pod_not_found:
  assumes "BoundPod (Status b) \<noteq> ''''"
    and "fault e (GetPod (Namespace b, BoundPod (Status b))) = None"
    and "pods w (Namespace b, BoundPod (Status b)) = None"
    and "SessionID (Spec b) \<noteq> ''''"
    and "cf_DeleteRoute (CF e) (SessionID (Spec b)) = None"
  shows "snd (cleanupResources e b w) = None"
  using assms by (simp add: cleanupResources_def Get_pod_def Let_def)

lemma cleanupResources_delete_error:
  assumes "BoundPod (Status b) \<noteq> ''''"
    and "fault e (GetPod (Namespace b, BoundPod (Status b))) = None"
    and "pods w (Namespace b, BoundPod (Status b)) = Some p"
    and "fault e (DeletePod (Namespace b, BoundPod (Status b))) = Some m"
  shows "snd (cleanupResources e b w) = Some (Failure m)"
  using assms by (simp add: cleanupResources_def Get_pod_def Delete_pod_def Let_def)

subsection \<open>Unfolding sets for evaluating the concrete scenarios\<close>

lemmas eval_defs = Reconcile_def Get_binding_def Update_binding_def Status_Update_def
  Get_pod_def Get_deployment_def Create_pod_def Delete_pod_def SetControllerReference_def
  handleDeletion_def cleanupResources_def patchStatus_def reconcileActive_def ensureSessionPod_def
  with_condition_def with_phase_def with_route_def setCondition_def record_effect_def
  ContainsFinalizer_def AddFinalizer_def RemoveFinalizer_def IgnoreNotFound_def
  isPodReady_def podEndpoint_def Let_def
  APIClient_as_CFClient_def EnsureSession_def EnsureRoute_def DeleteRoute_def
  sessionBindingFinalizer_def podSessionLabelKey_def Result_empty_def
  SessionBindingPhasePending_def SessionBindingPhaseBound_def SessionBindingPhaseExpired_def
  SessionBindingPhaseError_def ConditionSessionDiscovered_def ConditionPodReady_def
  ConditionRouteConfigured_def ConditionTrue_def ConditionFalse_def ConditionUnknown_def
  PodRunning_def PodReady_def Second_def Minute_def

lemmas scenario_defs = quiet_env_def fresh_cluster_def fresh_binding_def empty_status_def
  web_deployment_def blank_binding_def blank_cluster_def session_pod_def bound_status_def
  ready_cluster_def deleting_binding_def teardown_cluster_def lookup_fault_env_def orphan_binding_def
  orphan_cluster_def

subsection \<open>The happy path of the specification, end to end\<close>

text \<open>
  Binding \<^verbatim>\<open>s1\<close> in namespace \<^verbatim>\<open>ns\<close>, its pod ready with IP 10.0.0.7 and container
  port 8080, the edge answering yes: one Reconcile ends in Bound with the route endpoint
  \<^verbatim>\<open>10.0.0.7:8080\<close> and no requeue.
\<close>

lemma scenario_happy_path:
  "snd (Reconcile quiet_env (''ns'', ''b1'') ready_cluster) = (Result_empty, None) \<and>
   map_option (Phase \<circ> Status)
     (bindings (fst (Reconcile quiet_env (''ns'', ''b1'') ready_cluster)) (''ns'', ''b1''))
     = Some ''Bound'' \<and>
   map_option (BoundPod \<circ> Status)
     (bindings (fst (Reconcile quiet_env (''ns'', ''b1'') ready_cluster)) (''ns'', ''b1''))
     = Some ''session-s1'' \<and>
   map_option (RouteEndpoint \<circ> Status)
     (bindings (fst (Reconcile quiet_env (''ns'', ''b1'') ready_cluster)) (''ns'', ''b1''))
     = Some ''10.0.0.7:8080'' \<and>
   map_option (map cond_status \<circ> Conditions \<circ> Status)
     (bindings (fst (Reconcile quiet_env (''ns'', ''b1'') ready_cluster)) (''ns'', ''b1''))
     = Some [''True'', ''True'', ''True'']"
  by (simp add: eval_defs scenario_defs format_d_def decimal.simps digit_char_def)

section \<open>The claims\<close>

subsection \<open>C1: installing the finalizer\<close>

text \<open>
  C1 as stated: when a non-deleting binding lacks the operator finalizer, Reconcile adds
  it, writes back metadata and returns success with an immediate requeue, leaving the status
  stamp, the active reconcile and the status write-back to the next tick.

  The code has no such return. On a fresh binding with a live session and an existing
  deployment one invocation writes the finalizer, verifies the session, creates the pod,
  stamps the status and writes it back as Pending; the result asks for a timed re-entry
  after ten seconds and \<^verbatim>\<open>Requeue\<close> stays false.
\<close>

theorem Reconcile_finalizer_install_counterexample:
  "sessionBindingFinalizer \<notin> set (Finalizers fresh_binding) \<and>
   IsZero (DeletionTimestamp fresh_binding) \<and>
   snd (Reconcile quiet_env (''ns'', ''b1'') fresh_cluster) =
     (\<lparr>Requeue = False, RequeueAfter = 10 * Second\<rparr>, None) \<and>
   trace (fst (Reconcile quiet_env (''ns'', ''b1'') fresh_cluster)) =
     [Api (GetBinding (''ns'', ''b1'')), Api (UpdateBinding (''ns'', ''b1'')),
      Edge (CallEnsureSession ''s1''), Api (GetPod (''ns'', ''session-s1'')),
      Api (GetDeployment (''ns'', ''web'')), Api (CreatePod (''ns'', ''session-s1'')),
      RecordEvent ''Normal'' ''PodCreated'' ''Created pod session-s1 for session s1'',
      Api (GetBinding (''ns'', ''b1'')), Api (UpdateBindingStatus (''ns'', ''b1''))] \<and>
   map_option (Phase \<circ> Status)
     (bindings (fst (Reconcile quiet_env (''ns'', ''b1'') fresh_cluster)) (''ns'', ''b1''))
     = Some ''Pending'' \<and>
   map_option (ObservedGeneration \<circ> Status)
     (bindings (fst (Reconcile quiet_env (''ns'', ''b1'') fresh_cluster)) (''ns'', ''b1''))
     = Some 1 \<and>
   map_option (LastReconcileTime \<circ> Status)
     (bindings (fst (Reconcile quiet_env (''ns'', ''b1'') fresh_cluster)) (''ns'', ''b1''))
     = Some (Some 1700000000)"
  by (simp add: eval_defs scenario_defs)

text \<open>
  C1 as amended: when a non-deleting binding lacks the operator finalizer, Reconcile adds
  it and writes back metadata. If that write fails, the error is returned and nothing else
  is done. If it succeeds, the same invocation goes on to the status stamp, the active
  reconcile and the status write-back (which starts by reading the binding again): the
  stored binding carries the finalizer, and when the invocation returns without error the
  stored status carries the generation, the injected clock's time and a phase. The result
  never sets \<^verbatim>\<open>Requeue\<close>.
\<close>

theorem Reconcile_finalizer_install_continues:
  assumes st0: "bindings w req = Some stored"
    and f: "fault e (GetBinding req) = None"
    and active: "IsZero (DeletionTimestamp stored)"
    and nofin: "sessionBindingFinalizer \<notin> set (Finalizers stored)"
    and run: "Reconcile e req w = (w', res, err)"
  shows "\<not> Requeue res \<and>
         (\<exists>rest. trace w' = trace w @ [Api (GetBinding req), Api (UpdateBinding req)] @ rest \<and>
            (fault e (UpdateBinding req) \<noteq> None \<longrightarrow>
               rest = [] \<and> err \<noteq> None \<and> bindings w' = bindings w) \<and>
            (fault e (UpdateBinding req) = None \<longrightarrow>
               Api (GetBinding req) \<in> set rest \<and>
               (\<exists>sb. bindings w' req = Some sb \<and>
                     sessionBindingFinalizer \<in> set (Finalizers sb)))) \<and>
         (err = None \<longrightarrow>
            (\<exists>sb. bindings w' req = Some sb \<and>
                  ObservedGeneration (Status sb) = Generation stored \<and>
                  LastReconcileTime (Status sb) = Some (clock_now e) \<and>
                  (Phase (Status sb) = SessionBindingPhaseError \<or>
                   Phase (Status sb) = SessionBindingPhaseExpired \<or>
                   Phase (Status sb) = SessionBindingPhasePending \<or>
                   Phase (Status sb) = SessionBindingPhaseBound)))"
proof -
  let ?fin = sessionBindingFinalizer
  let ?wg = "record_effect (Api (GetBinding req)) w"
  define b0 where "b0 = stored\<lparr>Namespace := fst req, Name := snd req\<rparr>"
  have g: "Get_binding e req w = (?wg, Inr b0)"
    using Get_binding_hit [OF f st0] by (simp add: b0_def)
  have k: "(Namespace (AddFinalizer b0 ?fin), Name (AddFinalizer b0 ?fin)) = req"
    by (simp add: AddFinalizer_def b0_def)
  have nf0: "\<not> ContainsFinalizer b0 ?fin" and a0: "IsZero (DeletionTimestamp b0)"
    using nofin active by (simp_all add: ContainsFinalizer_def b0_def)
  show ?thesis
  proof (cases "fault e (UpdateBinding req)")
    case (Some m)
    then have "Update_binding e (AddFinalizer b0 ?fin) ?wg =
                 (record_effect (Api (UpdateBinding req)) ?wg, Inl (Failure m))"
      using k by (simp add: Update_binding_def Let_def)
    with run g nf0 a0 have "w' = record_effect (Api (UpdateBinding req)) ?wg"
      "res = Result_empty" "err = Some (Failure m)"
      by (simp_all add: Reconcile_def)
    with Some show ?thesis by (simp add: Result_empty_def)
  next
    case None
    let ?b1 = "(AddFinalizer b0 ?fin)\<lparr>Status := Status stored\<rparr>"
    let ?w2 = "(record_effect (Api (UpdateBinding req)) ?wg)\<lparr>bindings := (bindings w)(req \<mapsto> ?b1)\<rparr>"
    have up: "Update_binding e (AddFinalizer b0 ?fin) ?wg = (?w2, Inr ?b1)"
      using None k st0 by (simp add: Update_binding_def Let_def)
    let ?b3 = "?b1\<lparr>Status := (Status ?b1)
                    \<lparr>ObservedGeneration := Generation ?b1,
                     LastReconcileTime := Some (clock_now e)\<rparr>\<rparr>"
    obtain w3 b4 res' rerr where ra: "reconcileActive e ?b3 ?w2 = (w3, b4, res', rerr)"
      by (cases "reconcileActive e ?b3 ?w2") auto
    obtain w4 serr where ps: "patchStatus e b4 w3 = (w4, serr)"
      by (cases "patchStatus e b4 w3")
    from run g nf0 a0 up ra ps
    have out: "w' = w4" "res = res'" "err = (case rerr of Some x \<Rightarrow> Some x | None \<Rightarrow> serr)"
      by (auto simp: Reconcile_def Let_def split: option.splits)
    note fr = reconcileActive_frame [OF ra]
    from fr have b4: "b4 = ?b3\<lparr>Status := Status b4\<rparr>" by blast
    have key4: "Namespace b4 = fst req" "Name b4 = snd req"
      by (subst b4, simp add: AddFinalizer_def b0_def)+
    from reconcileActive_trace [OF ra] obtain t1 where
      t1: "trace w3 = trace w @ [Api (GetBinding req), Api (UpdateBinding req)] @ t1"
      by (auto simp: record_effect_def)
    from patchStatus_effects(1) [OF ps] key4 obtain t2 where
      t2: "trace w4 = trace w3 @ Api (GetBinding req) # t2" by auto
    have tr: "trace w' = trace w @ [Api (GetBinding req), Api (UpdateBinding req)] @
                (t1 @ Api (GetBinding req) # t2)"
      using t1 t2 out by simp
    have "map_option Finalizers (bindings w4 req) = map_option Finalizers (bindings w3 req)"
      by (rule patchStatus_effects(4) [OF ps])
    also have "bindings w3 req = Some ?b1" using fr by simp
    finally have fin': "\<exists>sb. bindings w' req = Some sb \<and> ?fin \<in> set (Finalizers sb)"
      using out by (auto simp: AddFinalizer_def b0_def nofin)
    have stamped: "\<exists>sb. bindings w' req = Some sb \<and>
                  ObservedGeneration (Status sb) = Generation stored \<and>
                  LastReconcileTime (Status sb) = Some (clock_now e) \<and>
                  (Phase (Status sb) = SessionBindingPhaseError \<or>
                   Phase (Status sb) = SessionBindingPhaseExpired \<or>
                   Phase (Status sb) = SessionBindingPhasePending \<or>
                   Phase (Status sb) = SessionBindingPhaseBound)" if "err = None"
    proof -
      from that run have run': "Reconcile e req w = (w', res, None)" by simp
      from run' st0 active show ?thesis
      proof (rule Reconcile_active_ok)
        fix c1 v2 v3 c4 sb'
        assume gen: "Generation c1 = Generation stored"
          and ra': "reconcileActive e
             (c1\<lparr>Status := (Status c1)\<lparr>ObservedGeneration := Generation c1,
                                       LastReconcileTime := Some (clock_now e)\<rparr>\<rparr>) v2
               = (v3, c4, res, None)"
          and f4: "bindings w' req = Some sb'"
          and sb': "sb'\<lparr>Namespace := fst req, Name := snd req\<rparr> = c4"
          and stamp: "LastReconcileTime (Status c4) = Some (clock_now e)"
        from reconcileActive_frame [OF ra'] gen
        have og: "ObservedGeneration (Status c4) = Generation stored" by simp
        have "Phase (Status c4) = SessionBindingPhaseError \<or>
              Phase (Status c4) = SessionBindingPhaseExpired \<or>
              Phase (Status c4) = SessionBindingPhasePending \<or>
              Phase (Status c4) = SessionBindingPhaseBound"
          using ra' by (cases rule: reconcileActive_cases) simp_all
        moreover from Status_of_named [OF sb'] have "Status sb' = Status c4" by simp
        ultimately show ?thesis using f4 og stamp by auto
      qed
    qed
    have "\<not> Requeue res" using reconcileActive_no_requeue [OF ra] out by simp
    then show ?thesis using None tr fin' stamped by auto
  qed
qed

theorem Reconcile_finalizer_install_continues_witness:
  "bindings fresh_cluster (''ns'', ''b1'') = Some fresh_binding \<and>
   fault quiet_env (GetBinding (''ns'', ''b1'')) = None \<and>
   IsZero (DeletionTimestamp fresh_binding) \<and>
   sessionBindingFinalizer \<notin> set (Finalizers fresh_binding) \<and>
   \<not> Requeue (fst (snd (Reconcile quiet_env (''ns'', ''b1'') fresh_cluster))) \<and>
   Api (UpdateBinding (''ns'', ''b1'')) \<in>
     set (trace (fst (Reconcile quiet_env (''ns'', ''b1'') fresh_cluster)))"
proof -
  have h: "bindings fresh_cluster (''ns'', ''b1'') = Some fresh_binding"
    "fault quiet_env (GetBinding (''ns'', ''b1'')) = None"
    "IsZero (DeletionTimestamp fresh_binding)"
    "sessionBindingFinalizer \<notin> set (Finalizers fresh_binding)"
    "fault quiet_env (UpdateBinding (''ns'', ''b1'')) = None"
    by (simp_all add: scenario_defs)
  have run: "Reconcile quiet_env (''ns'', ''b1'') fresh_cluster =
      (fst (Reconcile quiet_env (''ns'', ''b1'') fresh_cluster),
       fst (snd (Reconcile quiet_env (''ns'', ''b1'') fresh_cluster)),
       snd (snd (Reconcile quiet_env (''ns'', ''b1'') fresh_cluster)))"
    by simp
  from Reconcile_finalizer_install_continues [OF h(1-4) run] h show ?thesis
    by (auto simp: fresh_cluster_def)
qed

subsection \<open>C2: the endpoint of a pod\<close>

text \<open>
  C2 as stated: \<^verbatim>\<open>podEndpoint\<close> is empty when the pod has no IP; otherwise it is
  \<^verbatim>\<open>podIP:port\<close> with the port of the first container's first declared port, and 80
  when the first container declares none, whatever later containers declare
  (\<open>podEndpoint_spec\<close>).

  The loop does not stop at the first container: a pod whose first container declares no
  port and whose second declares 9090 gets the endpoint \<^verbatim>\<open>10.0.0.7:9090\<close>, not
  \<^verbatim>\<open>10.0.0.7:80\<close>.
\<close>

theorem podEndpoint_later_container_counterexample:
  "podEndpoint sidecar_first_pod = ''10.0.0.7:9090'' \<and>
   podEndpoint_spec sidecar_first_pod = ''10.0.0.7:80'' \<and>
   podEndpoint sidecar_first_pod \<noteq> podEndpoint_spec sidecar_first_pod"
  by (simp add: podEndpoint_def podEndpoint_spec_def sidecar_first_pod_def format_d_def
      decimal.simps digit_char_def)

text \<open>
  C2 as amended: \<^verbatim>\<open>podEndpoint\<close> is empty when the pod has no IP; otherwise it is
  \<^verbatim>\<open>podIP:port\<close> in decimal, where the port is the first declared port of the first
  container, in order, that declares at least one port, and 80 when no container declares
  any.
\<close>

theorem podEndpoint_first_declaring_container:
  "podEndpoint pod =
     (if podIP (pod_status pod) = '''' then ''''
      else podIP (pod_status pod) @ '':'' @
           format_d (sint (case find (\<lambda>c. ports c \<noteq> []) (pod_containers pod) of
                             None \<Rightarrow> 80
                           | Some c \<Rightarrow> containerPort (hd (ports c)))))"
  by (simp add: podEndpoint_def port_loop_find)

theorem podEndpoint_first_declaring_container_witness:
  "podEndpoint sidecar_first_pod = ''10.0.0.7:9090''"
  using podEndpoint_first_declaring_container [of sidecar_first_pod]
  by (simp add: sidecar_first_pod_def format_d_def decimal.simps digit_char_def)

subsection \<open>C3 and C4: teardown\<close>

text \<open>
  C4: during teardown, when \<^verbatim>\<open>status.boundPod\<close> is set the owned pod is deleted by
  name; NotFound is tolerated, and any transport error met while looking the pod up or
  deleting it is surfaced to the caller.

  \<^verbatim>\<open>cleanupResources\<close> tells NotFound from other errors only for the Delete call. When
  the Get before it fails in transport, the whole pod step is skipped without an error: at
  the input below (the lookup of pod \<^verbatim>\<open>session-s1\<close> answers "connection refused")
  \<^verbatim>\<open>cleanupResources\<close> returns nil and the pod is still there.
\<close>

theorem cleanupResources_swallows_lookup_error:
  "fault lookup_fault_env (GetPod (''ns'', ''session-s1'')) = Some ''connection refused'' \<and>
   BoundPod (Status deleting_binding) = ''session-s1'' \<and>
   snd (cleanupResources lookup_fault_env deleting_binding teardown_cluster) = None \<and>
   pods (fst (cleanupResources lookup_fault_env deleting_binding teardown_cluster))
     (''ns'', ''session-s1'') = Some session_pod"
  by (simp add: eval_defs scenario_defs)

text \<open>
  C3: during teardown of a binding with the finalizer and a non-empty session, an error
  from \<^verbatim>\<open>DeleteRoute\<close> keeps the finalizer and is surfaced; the finalizer is removed
  and CleanedUp emitted only after pod deletion and route retraction both succeeded.

  The route half holds (lemma \<open>handleDeletion_route_error_blocks\<close>). The pod half does
  not, through the same skipped lookup error: in the run below the pod is never deleted
  (no Delete call is made and the pod remains), yet CleanedUp is emitted, the finalizer is
  removed and Reconcile returns success.
\<close>

theorem Reconcile_teardown_after_failed_lookup:
  "snd (Reconcile lookup_fault_env (''ns'', ''b1'') teardown_cluster) = (Result_empty, None) \<and>
   map_option Finalizers
     (bindings (fst (Reconcile lookup_fault_env (''ns'', ''b1'') teardown_cluster)) (''ns'', ''b1''))
     = Some [] \<and>
   trace (fst (Reconcile lookup_fault_env (''ns'', ''b1'') teardown_cluster)) =
     [Api (GetBinding (''ns'', ''b1'')), Api (GetPod (''ns'', ''session-s1'')),
      Edge (CallDeleteRoute ''s1''),
      RecordEvent ''Normal'' ''CleanedUp'' ''Removed Cloudflare route and session pod'',
      Api (UpdateBinding (''ns'', ''b1''))] \<and>
   pods (fst (Reconcile lookup_fault_env (''ns'', ''b1'') teardown_cluster))
     (''ns'', ''session-s1'') = Some session_pod"
  by (simp add: eval_defs scenario_defs)

subsection \<open>C5: the invalid spec\<close>

text \<open>
  C5: for a binding with an empty \<^verbatim>\<open>spec.sessionID\<close> that is not under deletion,
  reconcile sets the phase to Error and the SessionDiscovered condition to False with
  reason InvalidSpec, makes no edge call, creates no pod and returns success with no
  requeue.

  First for \<^verbatim>\<open>reconcileActive\<close> itself, whose cluster (log included) comes back
  untouched; then for the whole Reconcile on a stored binding: the result is the empty
  \<^verbatim>\<open>ctrl.Result\<close>, pods and deployments are untouched, the only calls are reads and
  writes of the binding, the return is without error unless one of those two writes fails
  in transport, and a return without error leaves the stored status in phase Error with
  the condition.
\<close>

theorem Reconcile_invalid_spec:
  assumes st0: "bindings w req = Some stored"
    and sid: "SessionID (Spec stored) = ''''"
    and active: "IsZero (DeletionTimestamp stored)"
    and f: "fault e (GetBinding req) = None"
    and run: "Reconcile e req w = (w', res, err)"
  shows "(\<exists>b' c. reconcileActive e stored v = (v, b', Result_empty, None) \<and>
            Phase (Status b') = SessionBindingPhaseError \<and>
            FindStatusCondition (Conditions (Status b')) ConditionSessionDiscovered = Some c \<and>
            cond_status c = ConditionFalse \<and> cond_reason c = ''InvalidSpec'') \<and>
         res = Result_empty \<and>
         pods w' = pods w \<and> deployments w' = deployments w \<and>
         (\<exists>new. trace w' = trace w @ new \<and>
            set new \<subseteq> {Api (GetBinding req), Api (UpdateBinding req),
                         Api (UpdateBindingStatus req)}) \<and>
         (fault e (UpdateBinding req) = None \<and> fault e (UpdateBindingStatus req) = None
            \<longrightarrow> err = None) \<and>
         (err = None \<longrightarrow>
            (\<exists>sb c. bindings w' req = Some sb \<and>
                    Phase (Status sb) = SessionBindingPhaseError \<and>
                    FindStatusCondition (Conditions (Status sb)) ConditionSessionDiscovered = Some c \<and>
                    cond_status c = ConditionFalse \<and> cond_reason c = ''InvalidSpec''))"
proof -
  let ?inv = "with_phase SessionBindingPhaseError
                (with_condition e ConditionSessionDiscovered ConditionFalse ''InvalidSpec''
                   ''spec.sessionID must be provided'' stored)"
  have hc0: "holds_condition (Conditions (Status ?inv)) ConditionSessionDiscovered ConditionFalse
               ''InvalidSpec'' ''spec.sessionID must be provided''"
    by (simp add: setCondition_holds)
  have active_part: "\<exists>b' c. reconcileActive e stored v = (v, b', Result_empty, None) \<and>
            Phase (Status b') = SessionBindingPhaseError \<and>
            FindStatusCondition (Conditions (Status b')) ConditionSessionDiscovered = Some c \<and>
            cond_status c = ConditionFalse \<and> cond_reason c = ''InvalidSpec''"
    using sid Find_holds [OF hc0] by (auto simp: reconcileActive_def)
  have frame: "res = Result_empty \<and> (pods w' = pods w \<and> deployments w' = deployments w) \<and>
        (\<exists>new. trace w' = trace w @ new \<and>
               set new \<subseteq> {Api (GetBinding req), Api (UpdateBinding req), Api (UpdateBindingStatus req)}) \<and>
        (fault e (UpdateBinding req) = None \<and> fault e (UpdateBindingStatus req) = None \<longrightarrow> err = None)"
    using st0 sid active f run
    by (auto simp: Reconcile_def Get_binding_def Update_binding_def patchStatus_def
        Status_Update_def reconcileActive_def AddFinalizer_def ContainsFinalizer_def
        Let_def record_effect_def with_phase_def with_condition_def
        split: if_splits option.splits prod.splits sum.splits)
  have stored_part: "\<exists>sb c. bindings w' req = Some sb \<and> Phase (Status sb) = SessionBindingPhaseError \<and>
                   FindStatusCondition (Conditions (Status sb)) ConditionSessionDiscovered = Some c \<and>
                   cond_status c = ConditionFalse \<and> cond_reason c = ''InvalidSpec''"
    if "err = None"
  proof -
    from that run have run': "Reconcile e req w = (w', res, None)" by simp
    from run' st0 active show ?thesis
    proof (rule Reconcile_active_ok)
      fix b1 w2 w3 b4 sb'
      assume sp: "Spec b1 = Spec stored"
        and ra: "reconcileActive e
           (b1\<lparr>Status := (Status b1)\<lparr>ObservedGeneration := Generation b1,
                                     LastReconcileTime := Some (clock_now e)\<rparr>\<rparr>) w2
             = (w3, b4, res, None)"
        and f4: "bindings w' req = Some sb'"
        and sb': "sb'\<lparr>Namespace := fst req, Name := snd req\<rparr> = b4"
      from ra sp sid have ph: "Phase (Status b4) = SessionBindingPhaseError"
        and hc: "holds_condition (Conditions (Status b4)) ConditionSessionDiscovered ConditionFalse
               ''InvalidSpec'' ''spec.sessionID must be provided''"
        by (auto simp: reconcileActive_def setCondition_holds)
      from Status_of_named [OF sb'] have "Status sb' = Status b4" by simp
      with f4 ph Find_holds [OF hc] show ?thesis by auto
    qed
  qed
  from active_part frame stored_part show ?thesis by blast
qed

theorem Reconcile_invalid_spec_witness:
  "bindings blank_cluster (''ns'', ''b0'') = Some blank_binding \<and>
   SessionID (Spec blank_binding) = '''' \<and>
   IsZero (DeletionTimestamp blank_binding) \<and>
   snd (Reconcile quiet_env (''ns'', ''b0'') blank_cluster) = (Result_empty, None) \<and>
   pods (fst (Reconcile quiet_env (''ns'', ''b0'') blank_cluster)) = pods blank_cluster"
proof -
  have h: "bindings blank_cluster (''ns'', ''b0'') = Some blank_binding"
    "SessionID (Spec blank_binding) = ''''"
    "IsZero (DeletionTimestamp blank_binding)"
    "fault quiet_env (GetBinding (''ns'', ''b0'')) = None"
    "fault quiet_env (UpdateBinding (''ns'', ''b0'')) = None"
    "fault quiet_env (UpdateBindingStatus (''ns'', ''b0'')) = None"
    by (simp_all add: scenario_defs)
  have run: "Reconcile quiet_env (''ns'', ''b0'') blank_cluster =
      (fst (Reconcile quiet_env (''ns'', ''b0'') blank_cluster),
       fst (snd (Reconcile quiet_env (''ns'', ''b0'') blank_cluster)),
       snd (snd (Reconcile quiet_env (''ns'', ''b0'') blank_cluster)))"
    by simp
  from Reconcile_invalid_spec [OF h(1-4) run] h
  have "fst (snd (Reconcile quiet_env (''ns'', ''b0'') blank_cluster)) = Result_empty"
    "snd (snd (Reconcile quiet_env (''ns'', ''b0'') blank_cluster)) = None"
    "pods (fst (Reconcile quiet_env (''ns'', ''b0'') blank_cluster)) = pods blank_cluster"
    by blast+
  with h show ?thesis by (simp add: prod_eq_iff)
qed

subsection \<open>C6: the status frame of the active reconcile\<close>

text \<open>
  C6: an active reconcile that ends in Error or Expired leaves \<^verbatim>\<open>status.boundPod\<close>
  and \<^verbatim>\<open>status.routeEndpoint\<close> as they were; one that ends in Pending sets
  \<^verbatim>\<open>boundPod\<close> to the name of the observed pod and clears \<^verbatim>\<open>routeEndpoint\<close>; one
  that ends in Bound sets both to the fresh values. The pod-not-ready path is the one that
  ends in Pending, so no Error or Expired exit is excepted. Every exit sets one of the
  four phases; the observed pod is the one stored under the binding's namespace and the
  name \<^verbatim>\<open>session-<sessionID>\<close>.
\<close>

theorem reconcileActive_status_frame:
  assumes "reconcileActive e b w = (w', b', res, err)"
  shows "(Phase (Status b') = SessionBindingPhaseError \<or>
          Phase (Status b') = SessionBindingPhaseExpired \<longrightarrow>
            BoundPod (Status b') = BoundPod (Status b) \<and>
            RouteEndpoint (Status b') = RouteEndpoint (Status b)) \<and>
         (Phase (Status b') = SessionBindingPhasePending \<longrightarrow>
            BoundPod (Status b') = ''session-'' @ SessionID (Spec b) \<and>
            RouteEndpoint (Status b') = '''' \<and>
            (\<exists>pod. pods w' (Namespace b, BoundPod (Status b')) = Some pod \<and> \<not> isPodReady pod)) \<and>
         (Phase (Status b') = SessionBindingPhaseBound \<longrightarrow>
            BoundPod (Status b') = ''session-'' @ SessionID (Spec b) \<and>
            RouteEndpoint (Status b') \<noteq> '''' \<and>
            (\<exists>pod. pods w' (Namespace b, BoundPod (Status b')) = Some pod \<and> isPodReady pod \<and>
                   RouteEndpoint (Status b') = podEndpoint pod)) \<and>
         (Phase (Status b') = SessionBindingPhaseError \<or>
          Phase (Status b') = SessionBindingPhaseExpired \<or>
          Phase (Status b') = SessionBindingPhasePending \<or>
          Phase (Status b') = SessionBindingPhaseBound)"
  using assms
proof (cases rule: reconcileActive_cases)
  case InvalidSpec
  then show ?thesis by simp
next
  case (EdgeError ex x)
  then show ?thesis by simp
next
  case Expired
  then show ?thesis by simp
next
  case (PodError x)
  then show ?thesis by simp
next
  case (Pending pod)
  from ensureSessionPod_observed [OF Pending(3)] Pending(4,7)
  show ?thesis by (auto simp: pod_key_def)
next
  case (EndpointMissing pod)
  then show ?thesis by simp
next
  case (RouteError pod w2 x)
  then show ?thesis by simp
next
  case (Bound pod w2)
  from ensureSessionPod_observed [OF Bound(3)] Bound(4,5,7,10)
  show ?thesis by (auto simp: pod_key_def)
qed

theorem reconcileActive_status_frame_witness:
  "Phase (Status (fst (snd (reconcileActive quiet_env fresh_binding ready_cluster))))
     = SessionBindingPhaseBound \<and>
   BoundPod (Status (fst (snd (reconcileActive quiet_env fresh_binding ready_cluster))))
     = ''session-s1'' \<and>
   RouteEndpoint (Status (fst (snd (reconcileActive quiet_env fresh_binding ready_cluster))))
     \<noteq> ''''"
proof -
  let ?r = "reconcileActive quiet_env fresh_binding ready_cluster"
  have ph: "Phase (Status (fst (snd ?r))) = SessionBindingPhaseBound"
    by (simp add: eval_defs scenario_defs format_d_def decimal.simps digit_char_def)
  have run: "?r = (fst ?r, fst (snd ?r), fst (snd (snd ?r)), snd (snd (snd ?r)))" by simp
  from reconcileActive_status_frame [OF run] ph
  show ?thesis by (simp add: fresh_binding_def)
qed

subsection \<open>C7 and C10: the edge client without credentials\<close>

text \<open>
  C7: when at least one of the account ID and the API token is empty, the integration is
  disabled: \<^verbatim>\<open>EnsureSession\<close> answers that every non-empty session exists, without
  error; \<^verbatim>\<open>EnsureRoute\<close> (with non-empty arguments) and \<^verbatim>\<open>DeleteRoute\<close> succeed;
  none of them sends a request; and a client with exactly one credential answers every
  call as the client with none does.
\<close>

theorem APIClient_disabled_without_credentials:
  assumes "AccountID c = '''' \<or> APIToken c = ''''"
  shows "(sessionID \<noteq> '''' \<longrightarrow> EnsureSession c sessionID = ([], True, None)) \<and>
         (sessionID \<noteq> '''' \<and> endpoint \<noteq> '''' \<longrightarrow> EnsureRoute c sessionID endpoint = ([], None)) \<and>
         DeleteRoute c sessionID = ([], None) \<and>
         EnsureSession c sessionID = EnsureSession (c\<lparr>AccountID := '''', APIToken := ''''\<rparr>) sessionID \<and>
         EnsureRoute c sessionID endpoint =
           EnsureRoute (c\<lparr>AccountID := '''', APIToken := ''''\<rparr>) sessionID endpoint \<and>
         DeleteRoute c sessionID = DeleteRoute (c\<lparr>AccountID := '''', APIToken := ''''\<rparr>) sessionID"
  using assms by (auto simp: EnsureSession_def EnsureRoute_def DeleteRoute_def)

theorem APIClient_disabled_without_credentials_witness:
  "EnsureSession \<lparr>AccountID = ''acct'', APIToken = ''''\<rparr> ''s1'' = ([], True, None) \<and>
   EnsureRoute \<lparr>AccountID = ''acct'', APIToken = ''''\<rparr> ''s1'' ''10.0.0.7:8080'' = ([], None) \<and>
   DeleteRoute \<lparr>AccountID = ''acct'', APIToken = ''''\<rparr> ''s1'' = ([], None)"
  using APIClient_disabled_without_credentials
    [of "\<lparr>AccountID = ''acct'', APIToken = ''''\<rparr>" "''s1''" "''10.0.0.7:8080''"]
  by simp

text \<open>
  C10: \<^verbatim>\<open>EnsureSession\<close> answers the empty session ID with false and an error whatever
  the credentials are, because the empty-argument check comes first.
\<close>

theorem EnsureSession_empty_sessionID:
  "EnsureSession c '''' = ([], False, Some (Failure ''sessionID is empty''))"
  by (simp add: EnsureSession_def)

theorem EnsureSession_empty_sessionID_witness:
  "EnsureSession \<lparr>AccountID = '''', APIToken = ''''\<rparr> '''' =
     ([], False, Some (Failure ''sessionID is empty''))"
  using EnsureSession_empty_sessionID [of "\<lparr>AccountID = '''', APIToken = ''''\<rparr>"] by simp

subsection \<open>C8: reconciling again changes nothing\<close>

text \<open>
  C8: in a fixed environment (cluster faults, edge answers, injected clock), once one
  Reconcile has returned without error, every further Reconcile on the state it left
  leaves the stored status of the binding as that first run produced it, and returns the
  same result. The wall clock that stamps condition transitions may differ from run to
  run; the condition statuses no longer change, so it is never read into the status.
\<close>

theorem Reconcile_idempotent_status:
  assumes "Reconcile e req w = (w1, res, None)"
  shows "map_option Status (bindings (Reconcile_repeat e req ts w1) req)
           = map_option Status (bindings w1 req) \<and>
         (\<forall>t. snd (Reconcile (e\<lparr>wall_now := t\<rparr>) req (Reconcile_repeat e req ts w1)) = (res, None))"
  using Reconcile_repeat_stable [OF assms, of e ts] by simp

theorem Reconcile_idempotent_status_witness:
  "snd (snd (Reconcile quiet_env (''ns'', ''b1'') fresh_cluster)) = None \<and>
   map_option (Phase \<circ> Status) (bindings (fst (Reconcile quiet_env (''ns'', ''b1'') fresh_cluster)) (''ns'', ''b1''))
     = Some ''Pending'' \<and>
   map_option Status
     (bindings (Reconcile_repeat quiet_env (''ns'', ''b1'') [1700000050, 1700000060]
        (fst (Reconcile quiet_env (''ns'', ''b1'') fresh_cluster))) (''ns'', ''b1''))
     = map_option Status (bindings (fst (Reconcile quiet_env (''ns'', ''b1'') fresh_cluster)) (''ns'', ''b1''))"
proof -
  have ok: "snd (snd (Reconcile quiet_env (''ns'', ''b1'') fresh_cluster)) = None"
    and ph: "map_option (Phase \<circ> Status) (bindings (fst (Reconcile quiet_env (''ns'', ''b1'') fresh_cluster)) (''ns'', ''b1''))
     = Some ''Pending''"
    by (simp_all add: eval_defs scenario_defs)
  then have run: "Reconcile quiet_env (''ns'', ''b1'') fresh_cluster =
      (fst (Reconcile quiet_env (''ns'', ''b1'') fresh_cluster),
       fst (snd (Reconcile quiet_env (''ns'', ''b1'') fresh_cluster)), None)"
    by (metis prod.collapse)
  from Reconcile_idempotent_status [OF run, of "[1700000050, 1700000060]"] ok ph
  show ?thesis by blast
qed

subsection \<open>C9: a deleting binding without the finalizer\<close>

text \<open>
  C9: for a binding whose deletion timestamp is set and which does not carry the operator
  finalizer, Reconcile returns success at once: the cluster comes back as it was, with the
  read of the binding as the only new entry of the log (no pod lookup or deletion, no edge
  call, no event, no metadata or status write).
\<close>

theorem Reconcile_deleting_without_finalizer:
  assumes "bindings w req = Some b"
    and "fault e (GetBinding req) = None"
    and "\<not> IsZero (DeletionTimestamp b)"
    and "sessionBindingFinalizer \<notin> set (Finalizers b)"
  shows "Reconcile e req w = (record_effect (Api (GetBinding req)) w, Result_empty, None)"
  using assms
  by (simp add: Reconcile_def Get_binding_def handleDeletion_def ContainsFinalizer_def)

theorem Reconcile_deleting_without_finalizer_witness:
  "bindings orphan_cluster (''ns'', ''b1'') = Some orphan_binding \<and>
   \<not> IsZero (DeletionTimestamp orphan_binding) \<and>
   sessionBindingFinalizer \<notin> set (Finalizers orphan_binding) \<and>
   Reconcile quiet_env (''ns'', ''b1'') orphan_cluster =
     (orphan_cluster\<lparr>trace := [Api (GetBinding (''ns'', ''b1''))]\<rparr>, Result_empty, None)"
proof -
  have h: "bindings orphan_cluster (''ns'', ''b1'') = Some orphan_binding"
    "fault quiet_env (GetBinding (''ns'', ''b1'')) = None"
    "\<not> IsZero (DeletionTimestamp orphan_binding)"
    "sessionBindingFinalizer \<notin> set (Finalizers orphan_binding)"
    by (simp_all add: scenario_defs sessionBindingFinalizer_def)
  from Reconcile_deleting_without_finalizer [OF h] h
  show ?thesis by (simp add: record_effect_def orphan_cluster_def)
qed

end
